theory Spec2Isabelle
  imports Complex_Main "HOL-Library.Sublist"
begin

section \<open>Strings\<close>

text \<open>
  A Python \<open>str\<close> is a sequence of Unicode code points, and the program counts and slices
  in code points (\<open>title[:30]\<close>, \<open>len(base_summary)\<close>), so a string is the list of its
  code points. The Korean literals of the source are written as their code points.
\<close>

type_synonym pystr = "nat list"

definition ascii :: "string \<Rightarrow> pystr" where
  \<comment> \<open>an ASCII literal as a Python string\<close>
  "ascii s = map of_char s"

definition is_space :: "nat \<Rightarrow> bool" where
  \<comment> \<open>the code points for which \<open>str.isspace\<close> holds; \<open>str.strip()\<close> removes exactly these\<close>
  "is_space c \<longleftrightarrow>
     (9 \<le> c \<and> c \<le> 13) \<or> (28 \<le> c \<and> c \<le> 32) \<or> c = 133 \<or> c = 160 \<or> c = 5760 \<or>
     (8192 \<le> c \<and> c \<le> 8202) \<or> c = 8232 \<or> c = 8233 \<or> c = 8239 \<or> c = 8287 \<or> c = 12288"

definition strip :: "pystr \<Rightarrow> pystr" where
  \<comment> \<open>\<open>s.strip()\<close>\<close>
  "strip s = rev (dropWhile is_space (rev (dropWhile is_space s)))"

definition dict_get :: "'a option \<Rightarrow> 'a \<Rightarrow> 'a" where
  \<comment> \<open>\<open>d.get(key, default)\<close>, the first argument being the entry of the key (None: no such key)\<close>
  "dict_get entry dflt = (case entry of None \<Rightarrow> dflt | Some v \<Rightarrow> v)"

section \<open>Data model\<close>

text \<open>
  Confidence values are what \<open>response.json()\<close> gives for the key \<open>confidence\<close>. A finite
  number is recorded by its exact rational value, so that the comparison with the float
  literal \<open>0.6\<close> is the comparison of the source. The floats infinity, minus infinity and
  not-a-number, which the JSON parser of Python accepts (\<open>Infinity\<close>, \<open>-Infinity\<close>, \<open>NaN\<close>,
  \<open>1e400\<close>), have constructors of their own. \<open>Unusable\<close> stands for a value on which
  \<open>confidence >= 0.6\<close> or the \<open>:.3f\<close> rendering of the log line raises (null, a string, a
  list, an object, an integer beyond the float range).
\<close>

datatype confidence_value =
  Absent | Number rat | PlusInfinity | MinusInfinity | NaN | Unusable

record classification =
  label :: "pystr option"
  confidence :: confidence_value

text \<open>
  A news item is a dict; a field is \<open>None\<close> when the dict has no such key. The source adapter
  creates \<open>company\<close>, \<open>title\<close>, \<open>description\<close>, \<open>link\<close> and \<open>pubDate\<close>; the keyword filter adds
  \<open>matched_keywords\<close> and the classifier adds \<open>classification\<close>.
\<close>

record news =
  company :: "pystr option"
  title :: "pystr option"
  description :: "pystr option"
  link :: "pystr option"
  pubDate :: "pystr option"
  category :: "pystr option"
  matched_keywords :: "pystr list option"
  classification :: "classification option"

section \<open>Keyword filter\<close>

text \<open>
  \<open>KeywordFilterService.important_keywords\<close>, in source order: 149 entries, Hangul phrases
  followed by \<open>ESG\<close>, \<open>%\<close>, \<open>DLC\<close>, \<open>1\<close>+U+C704, \<open>ai\<close>, \<open>cbt\<close>, \<open>ip\<close>, \<open>mou\<close>, \<open>nft\<close>.
\<close>

definition important_keywords :: "pystr list" where
  "important_keywords = [
     [44032, 49345, 51088, 49328], [44048, 49324, 48372, 44256, 49436], [44053, 54868],
     [44053, 49464], [44060, 52572], [44144, 47000], [44144, 51667],
     [44172, 51076, 32, 47588, 52636], [44208, 44284], [44208, 51032], [44208, 51221],
     [44228, 50557], [44228, 50557, 32, 52404, 44208], [44277, 44060], [44277, 47588, 46020],
     [44277, 49884], [44592, 49696], [44592, 47197], [44508, 53444], [44081, 49888],
     [44592, 44033], [44553, 46321], [45572, 51201], [45800, 54665], [45804, 49457],
     [45824, 48708], [45824, 54364, 51060, 49324], [46028, 54028], [47200, 52845],
     [47588, 51077], [47588, 52636], [47588, 52636, 50529], [47588, 49688, 49464],
     [48120, 44277, 44060], [47700, 53440, 48260, 49828], [48156, 54665], [48288, 53440],
     [48320, 46041], [48512, 51652], [48513, 48120], [48516, 44592],
     [48277, 51201, 32, 45824, 51025], [48277, 51201], [48660, 47197, 52404, 51064],
     [48708, 50857], [49324, 50629], [49324, 50808, 51060, 49324], [49324, 51204],
     [49324, 51204, 32, 50696, 50557], [49324, 51204, 50696, 50557], [49345, 51109],
     [49345, 51109, 54224, 51648], [49345, 49849, 32, 47560, 44048], [49345, 54693],
     [49345, 54693, 32, 51312, 51221], [49440, 51076], [49440, 51221], [49444, 47549],
     [49548, 44033], [49548, 49569], [49548, 51665], [49688, 54812], [49692, 49552, 49892],
     [49888, 44508], [49888, 51089], [49892, 51201], [49892, 51201, 48156, 54364],
     [50629, 45936, 51060, 53944], [50689, 50629, 49552, 49892], [50689, 50629, 51060, 51061],
     [50696, 50557], [50696, 51221], [50696, 44256], [50724, 54536], [50728, 46972, 51064],
     [50728, 48372, 46377], [50756, 47308], [50948, 48121, 49828], [50976, 49345, 51613, 51088],
     [50976, 51648], [51060, 49345], [51064, 44148, 48708], [51064, 49688],
     [51088, 44592, 51452, 49885], [51088, 49324, 51452], [51088, 48376],
     [51088, 48376, 32, 51104, 49885], [51201, 51088, 51204, 54872], [51204, 47029],
     [51204, 54872], [51109, 51473], [51104, 49885], [51221, 44592, 51452, 51452, 52509, 54924],
     [51221, 49885], [51228, 52636], [51312, 51221], [51333, 44032], [51452, 45817],
     [51452, 49885, 54924, 49324], [51452, 50836], [51452, 51452, 52509, 54924], [51452, 52509],
     [51473, 44397], [51613, 44032], [51648, 44553], [51648, 48516], [51648, 49549],
     [51648, 49549, 44032, 45733, 44221, 50689, 48372, 44256, 49436], [52280, 44032],
     [52280, 50668], [52376, 48516], [52404, 44208], [52572, 45824], [52572, 52488],
     [52628, 51652], [52636, 49884], [52712, 46301], [53580, 49828, 53944], [53804, 51088],
     [53804, 51088, 32, 45800, 54665], [54028, 53944, 45320, 49901],
     [54028, 53944, 45320, 49901, 32, 52404, 44208], [54032, 54840],
     [54140, 48660, 47532, 49905], [54140, 48660, 47532, 49905, 32, 44228, 50557],
     [54620, 54620, 47161], [54637, 49548], [54637, 44256], [54616, 54693], [54616, 46973],
     [54633, 48337], [54788, 44552, 48176, 45817], [54801, 47141], [54801, 50557],
     [54801, 50557, 32, 52404, 44208], [54869, 45824], [54869, 51109], [54925, 46301],
     [55121, 51088, 51204, 54872], [55141, 54665], [69, 83, 71], [37], [68, 76, 67],
     [49, 50948], [97, 105], [99, 98, 116], [105, 112], [109, 111, 117], [110, 102, 116]]"

text \<open>
  The inner loop of \<open>filter_by_keywords\<close> over the lexicon: it carries \<open>has_keyword\<close> and
  \<open>matched_keywords\<close>. \<open>lower\<close> is \<open>str.lower\<close> of the Python library, a parameter here.
\<close>

fun match_keywords ::
  "(pystr \<Rightarrow> pystr) \<Rightarrow> pystr \<Rightarrow> pystr list \<Rightarrow> bool \<times> pystr list \<Rightarrow> bool \<times> pystr list" where
  "match_keywords lower ttl [] acc = acc"
| "match_keywords lower ttl (keyword # rest) (has_keyword, matched) =
     (if sublist (lower keyword) ttl
      then match_keywords lower ttl rest (True, matched @ [keyword])
      else match_keywords lower ttl rest (has_keyword, matched))"

text \<open>
  \<open>filter_by_keywords\<close> on the contents of the dicts: the result lists what the returned
  dicts hold. (The source writes \<open>matched_keywords\<close> into the dict it was given; the store
  model below keeps track of that.)
\<close>

fun filter_by_keywords ::
  "(pystr \<Rightarrow> pystr) \<Rightarrow> pystr list \<Rightarrow> news list \<Rightarrow> news list" where
  "filter_by_keywords lower keywords [] = []"
| "filter_by_keywords lower keywords (n # news_list) =
     (let ttl = lower (dict_get (title n) []);
          (has_keyword, matched) = match_keywords lower ttl keywords (False, [])
      in if has_keyword
         then n\<lparr>matched_keywords := Some matched\<rparr> # filter_by_keywords lower keywords news_list
         else filter_by_keywords lower keywords news_list)"

text \<open>
  The lexicon entries that match an item, in lexicon order: those whose lower-cased form
  occurs in the lower-cased title. This is the specification's reading of the inner loop.
\<close>

definition keyword_matches :: "(pystr \<Rightarrow> pystr) \<Rightarrow> pystr list \<Rightarrow> news \<Rightarrow> pystr list" where
  "keyword_matches lower keywords n =
     filter (\<lambda>keyword. sublist (lower keyword) (lower (dict_get (title n) []))) keywords"

section \<open>Similarity deduplicator\<close>

text \<open>
  \<open>fuzz.token_set_ratio\<close> belongs to the fuzzywuzzy library; it is the parameter \<open>ratio\<close>,
  an integer score. The inner loop of \<open>remove_similar_titles\<close> walks the kept list
  \<open>filtered_news\<close> from its first element and stops at the first score of 85 or more.
\<close>

fun is_similar :: "(pystr \<Rightarrow> pystr \<Rightarrow> int) \<Rightarrow> pystr \<Rightarrow> news list \<Rightarrow> bool" where
  "is_similar ratio current_title [] = False"
| "is_similar ratio current_title (existing_news # rest) =
     (let existing_title = strip (dict_get (title existing_news) []);
          similarity_score = ratio current_title existing_title
      in if similarity_score \<ge> 85 then True else is_similar ratio current_title rest)"

text \<open>The outer loop: the items still to scan, and the list \<open>filtered_news\<close> kept so far.\<close>

fun scan_titles :: "(pystr \<Rightarrow> pystr \<Rightarrow> int) \<Rightarrow> news list \<Rightarrow> news list \<Rightarrow> news list" where
  "scan_titles ratio [] filtered_news = filtered_news"
| "scan_titles ratio (current_news # rest) filtered_news =
     (let current_title = strip (dict_get (title current_news) [])
      in if current_title = [] then scan_titles ratio rest filtered_news
         else if is_similar ratio current_title filtered_news
              then scan_titles ratio rest filtered_news
              else scan_titles ratio rest (filtered_news @ [current_news]))"

definition remove_similar_titles :: "(pystr \<Rightarrow> pystr \<Rightarrow> int) \<Rightarrow> news list \<Rightarrow> news list" where
  "remove_similar_titles ratio news_list =
     (if news_list = [] then news_list else scan_titles ratio news_list [])"

text \<open>
  Vocabulary of the claims: the title that is compared, whether it is blank (absent, empty
  or white space only), and whether a candidate scores 85 or more against a kept item.
\<close>

definition compared_title :: "news \<Rightarrow> pystr" where
  "compared_title n = strip (dict_get (title n) [])"

definition blank_title :: "news \<Rightarrow> bool" where
  "blank_title n \<longleftrightarrow> compared_title n = []"

definition near_duplicate :: "(pystr \<Rightarrow> pystr \<Rightarrow> int) \<Rightarrow> news \<Rightarrow> news list \<Rightarrow> bool" where
  "near_duplicate ratio n kept \<longleftrightarrow>
     (\<exists>e \<in> set kept. 85 \<le> ratio (compared_title n) (compared_title e))"

text \<open>One turn of the outer loop, as the specification words it.\<close>

definition keep_step :: "(pystr \<Rightarrow> pystr \<Rightarrow> int) \<Rightarrow> news list \<Rightarrow> news \<Rightarrow> news list" where
  "keep_step ratio kept c =
     (if blank_title c \<or> near_duplicate ratio c kept then kept else kept @ [c])"

section \<open>Classification adapter\<close>

text \<open>
  Python floats are recorded by their exact values: the literal \<open>0.6\<close> is the binary64
  number \<open>5404319552844595 / 2^53\<close> and the literal \<open>0.7\<close> is \<open>3152519739159347 / 2^52\<close>.
\<close>

definition float_0_6 :: rat where
  "float_0_6 = 5404319552844595 / 9007199254740992"

definition float_0_7 :: rat where
  "float_0_7 = 3152519739159347 / 4503599627370496"

datatype py_exception = AttributeError | TypeError | ValueError | OtherError

text \<open>
  What the classifier service answers. An entry of the \<open>result\<close> array is an object with an
  optional \<open>label\<close> and \<open>confidence\<close>, or something else (\<open>NotAnObject\<close>, on which
  \<open>prediction.get\<close> raises). \<open>Malformed\<close> is a body on which \<open>response.json()\<close>,
  \<open>result.get\<close> or \<open>len(batch_results)\<close> raises; a body without the key \<open>result\<close> is
  \<open>Results []\<close>. The request itself ends in a response or in one of the exceptions that
  \<open>classify_news\<close> distinguishes.
\<close>

datatype prediction =
  Prediction (pred_label: "pystr option") (pred_confidence: confidence_value)
| NotAnObject

datatype classifier_body = Malformed | Results "prediction list"

datatype classifier_outcome =
  Response nat classifier_body
| ConnectError
| TimeoutException
| RequestError
| OtherException

datatype error_type = connection_error | timeout | network_error | unknown_error

definition fallback_classification :: classification where
  \<comment> \<open>\<open>{"label": "important", "confidence": 0.7}\<close>\<close>
  "fallback_classification = \<lparr>label = Some (ascii ''important''), confidence = Number float_0_7\<rparr>"

text \<open>\<open>_create_fallback_results\<close>: every item is copied and annotated.\<close>

fun create_fallback_results :: "news list \<Rightarrow> error_type \<Rightarrow> news list" where
  "create_fallback_results [] error_type = []"
| "create_fallback_results (n # news_list) error_type =
     n\<lparr>classification := Some fallback_classification\<rparr>
       # create_fallback_results news_list error_type"

text \<open>The loop of the \<open>else\<close> branch of \<open>classify_news\<close> (status other than 200).\<close>

fun pass_all_on_failure :: "news list \<Rightarrow> news list" where
  "pass_all_on_failure [] = []"
| "pass_all_on_failure (n # news_list) =
     n\<lparr>classification := Some \<lparr>label = Some (ascii ''important''), confidence = Number float_0_7\<rparr>\<rparr>
       # pass_all_on_failure news_list"

text \<open>
  \<open>confidence >= 0.6\<close> and the log line after it: the outcome of the comparison, or the
  exception. Infinity passes; minus infinity and not-a-number do not.
\<close>

fun at_least_0_6 :: "confidence_value \<Rightarrow> py_exception + bool" where
  "at_least_0_6 (Number c) = Inr (c \<ge> float_0_6)"
| "at_least_0_6 PlusInfinity = Inr True"
| "at_least_0_6 MinusInfinity = Inr False"
| "at_least_0_6 NaN = Inr False"
| "at_least_0_6 Absent = Inl TypeError"
| "at_least_0_6 Unusable = Inl TypeError"

text \<open>
  The loop of the status 200 branch: \<open>enumerate(news_list)\<close> against \<open>batch_results\<close>, item
  \<open>i\<close> with entry \<open>i\<close> while \<open>i < len(batch_results)\<close>. It raises at the first entry on which
  the source raises; \<open>prediction.get("confidence", 0)\<close> reads an absent confidence as 0.
\<close>

fun match_results :: "news list \<Rightarrow> prediction list \<Rightarrow> py_exception + news list" where
  "match_results [] batch_results = Inr []"
| "match_results (n # news_list) [] = match_results news_list []"
| "match_results (n # news_list) (NotAnObject # batch_results) = Inl AttributeError"
| "match_results (n # news_list) (Prediction lbl conf # batch_results) =
     (let classified_item = n\<lparr>classification := Some \<lparr>label = lbl, confidence = conf\<rparr>\<rparr>
      in case at_least_0_6 (case conf of Absent \<Rightarrow> Number 0 | v \<Rightarrow> v) of
           Inl e \<Rightarrow> Inl e
         | Inr passes \<Rightarrow>
             (case match_results news_list batch_results of
                Inl e \<Rightarrow> Inl e
              | Inr classified_news \<Rightarrow>
                  if passes then Inr (classified_item # classified_news)
                  else Inr classified_news))"

text \<open>
  \<open>classify_news\<close>. \<open>post\<close> is the classifier service: the outcome of the one request, given
  the list of titles sent.
\<close>

definition classify_news :: "(pystr list \<Rightarrow> classifier_outcome) \<Rightarrow> news list \<Rightarrow> news list" where
  "classify_news post news_list =
     (if news_list = [] then []
      else
        let titles = map (\<lambda>n. dict_get (title n) []) news_list
        in case post titles of
             Response status_code body \<Rightarrow>
               if status_code = 200
               then (case body of
                       Malformed \<Rightarrow> create_fallback_results news_list unknown_error
                     | Results batch_results \<Rightarrow>
                         (case match_results news_list batch_results of
                            Inl e \<Rightarrow> create_fallback_results news_list unknown_error
                          | Inr classified_news \<Rightarrow> classified_news))
               else pass_all_on_failure news_list
           | ConnectError \<Rightarrow> create_fallback_results news_list connection_error
           | TimeoutException \<Rightarrow> create_fallback_results news_list timeout
           | RequestError \<Rightarrow> create_fallback_results news_list network_error
           | OtherException \<Rightarrow> create_fallback_results news_list unknown_error)"

text \<open>
  Vocabulary of the claims: an entry the loop can process, an entry that passes the
  threshold, and the item annotated with an entry.
\<close>

fun usable :: "prediction \<Rightarrow> bool" where
  "usable NotAnObject = False"
| "usable (Prediction lbl conf) = (conf \<noteq> Unusable)"

fun accepted :: "prediction \<Rightarrow> bool" where
  "accepted (Prediction lbl (Number c)) = (float_0_6 \<le> c)"
| "accepted (Prediction lbl PlusInfinity) = True"
| "accepted p = False"

fun annotate :: "news \<Rightarrow> prediction \<Rightarrow> news" where
  "annotate n (Prediction lbl conf) = n\<lparr>classification := Some \<lparr>label = lbl, confidence = conf\<rparr>\<rparr>"
| "annotate n NotAnObject = n"

section \<open>Summarization adapter\<close>

text \<open>
  The literals of \<open>_generate_fallback_summary\<close>, both Hangul text: \<open>related_news\<close> is the 8
  characters put between the company and the title (a space, two syllables, a space, two
  syllables, a colon, a space); \<open>news_announced\<close> is the 16 characters that follow the
  company when there is no title. \<open>general_category\<close> is the default category (two syllables).
\<close>

definition related_news :: pystr where
  "related_news = [32, 44288, 47144, 32, 45684, 49828, 58, 32]"

definition news_announced :: pystr where
  "news_announced =
     [32, 44288, 47144, 32, 45684, 49828, 44032, 32, 48156, 54364, 46104, 50632, 49845, 45768,
      45796, 46]"

definition general_category :: pystr where
  "general_category = [51068, 48152]"

text \<open>\<open>_generate_fallback_summary\<close>; \<open>remaining_chars\<close> is an integer of the source.\<close>

definition generate_fallback_summary :: "news \<Rightarrow> pystr" where
  "generate_fallback_summary n =
     (let ttl = dict_get (title n) [];
          desc = dict_get (description n) [];
          comp = dict_get (company n) []
      in if ttl \<noteq> [] \<and> desc \<noteq> []
         then
           (let base_summary = comp @ related_news @ take 30 ttl;
                remaining_chars = 100 - int (length base_summary) - 5
            in take 100
                 (if length base_summary < 80 \<and> desc \<noteq> [] \<and> remaining_chars > 10
                  then base_summary @ ascii '' - '' @ take (nat remaining_chars) desc @ ascii ''...''
                  else base_summary))
         else if ttl \<noteq> []
         then comp @ related_news @ take 70 ttl
         else comp @ news_announced)"

text \<open>
  A \<open>datetime\<close> of the Python library: its fields, which the library keeps within the
  ranges of \<open>valid_datetime\<close> (\<open>MINYEAR\<close> is 1 and \<open>MAXYEAR\<close> is 9999).
\<close>

record datetime =
  year :: nat
  month :: nat
  day :: nat
  hour :: nat
  minute :: nat
  second :: nat

definition days_in_month :: "nat \<Rightarrow> nat \<Rightarrow> nat" where
  "days_in_month y m =
     (if m = 2 then (if y mod 4 = 0 \<and> (y mod 100 \<noteq> 0 \<or> y mod 400 = 0) then 29 else 28)
      else if m = 4 \<or> m = 6 \<or> m = 9 \<or> m = 11 then 30 else 31)"

definition valid_datetime :: "datetime \<Rightarrow> bool" where
  "valid_datetime dt \<longleftrightarrow>
     1 \<le> year dt \<and> year dt \<le> 9999 \<and> 1 \<le> month dt \<and> month dt \<le> 12
     \<and> 1 \<le> day dt \<and> day dt \<le> days_in_month (year dt) (month dt)
     \<and> hour dt < 24 \<and> minute dt < 60 \<and> second dt < 60"

definition digits :: "nat \<Rightarrow> nat \<Rightarrow> pystr" where
  \<comment> \<open>the last \<open>k\<close> decimal digits of \<open>n\<close>, as characters\<close>
  "digits k n = map (\<lambda>i. 48 + (n div 10 ^ i) mod 10) (rev [0..<k])"

definition decimal :: "pystr \<Rightarrow> nat" where
  \<comment> \<open>the number that a string of digits writes\<close>
  "decimal s = foldl (\<lambda>a c. 10 * a + (c - 48)) 0 s"

definition year_digits :: "nat \<Rightarrow> pystr" where
  \<comment> \<open>a year up to 9999 as a decimal number, without leading zeros\<close>
  "year_digits y =
     (if y < 10 then digits 1 y else if y < 100 then digits 2 y
      else if y < 1000 then digits 3 y else digits 4 y)"

text \<open>
  \<open>dt.strftime(format)\<close>, for the directives that the source uses, written from the
  documentation of the library and of the C library under it: \<open>%Y\<close> (code points 37, 89)
  is the year as a decimal number, which the C library of Linux writes without leading
  zeros; \<open>%m\<close> (37, 109) and \<open>%d\<close> (37, 100) are the month and the day as two digits;
  every other character is copied. Other directives are not modelled.
\<close>

fun strftime :: "datetime \<Rightarrow> pystr \<Rightarrow> pystr" where
  "strftime dt [] = []"
| "strftime dt [c] = [c]"
| "strftime dt (c # d # fmt) =
     (if c = 37 \<and> d = 89 then year_digits (year dt) @ strftime dt fmt
      else if c = 37 \<and> d = 109 then digits 2 (month dt) @ strftime dt fmt
      else if c = 37 \<and> d = 100 then digits 2 (day dt) @ strftime dt fmt
      else c # strftime dt (d # fmt))"

text \<open>
  \<open>_format_published_date\<close>. \<open>datetime.strptime\<close> belongs to the Python library and the
  clock \<open>datetime.now()\<close> to the machine; they are the parameters \<open>strptime\<close> (the text and
  the format; \<open>None\<close> when it raises) and \<open>now\<close>. \<open>pub_date.split('+')[0]\<close> is the text
  before the first plus sign (code point 43).
\<close>

definition before_plus :: "pystr \<Rightarrow> pystr" where
  \<comment> \<open>\<open>s.split('+')[0]\<close>\<close>
  "before_plus s = takeWhile (\<lambda>c. c \<noteq> 43) s"

definition format_published_date ::
  "(pystr \<Rightarrow> pystr \<Rightarrow> datetime option) \<Rightarrow> datetime \<Rightarrow> pystr \<Rightarrow> pystr" where
  "format_published_date strptime now pub_date =
     (if pub_date = [] then []
      else case strptime (strip (before_plus pub_date)) (ascii ''%a, %d %b %Y %H:%M:%S'') of
             Some dt \<Rightarrow> strftime dt (ascii ''%Y%m%d'')
           | None \<Rightarrow> strftime now (ascii ''%Y%m%d''))"

text \<open>
  The form \<open>YYYYMMDD\<close> of the specification: the year as four digits, the month and the day
  as two digits each.
\<close>

definition yyyymmdd :: "datetime \<Rightarrow> pystr" where
  "yyyymmdd dt = digits 4 (year dt) @ digits 2 (month dt) @ digits 2 (day dt)"

text \<open>
  What the summarizer service answers for one item. The \<open>summary\<close> of a body is absent, a
  string, a falsy value that is no string (null, 0, false, an empty array or object), or a
  truthy value that is no string, on which \<open>summary_text.strip()\<close> raises. \<open>BodyMalformed\<close>
  is a body on which \<open>response.json()\<close> or \<open>summary_result.get\<close> raises.
\<close>

datatype summary_value = SummaryAbsent | SummaryText pystr | SummaryFalsy | SummaryTruthy

datatype summarizer_body = BodyMalformed | Body summary_value

datatype summarizer_outcome =
  SummaryResponse nat summarizer_body
| SummaryRequestError
| SummaryOtherException

datatype summary_type =
  ai_generated
| fallback_empty_response
| fallback_api_error nat
| fallback_network_error
| fallback_unknown_error

text \<open>
  The result dict of the summarizer. Keys that share a name with a key of a news item carry
  the prefix \<open>summary_\<close>: \<open>summary_id\<close> is \<open>id\<close>, \<open>summary_confidence\<close> is \<open>confidence\<close>,
  \<open>summary_keywords\<close> is \<open>matched_keywords\<close>, \<open>summary_category\<close> is \<open>category\<close>.
  \<open>_create_fallback_result\<close> returns a dict without \<open>summary_type\<close>; its caller sets it.
\<close>

record summary_result =
  summary_id :: pystr
  corp :: "pystr option"
  summary :: pystr
  original_title :: "pystr option"
  summary_confidence :: confidence_value
  summary_keywords :: "pystr list"
  news_url :: pystr
  published_date :: pystr
  summary_category :: pystr
  sentiment :: pystr
  summary_type :: "summary_type option"

text \<open>
  The surroundings of \<open>summarize_news\<close>: the parser of the library, the clock read while
  item \<open>i\<close> is processed, the identifier \<open>str(uuid.uuid4())\<close> drawn for item \<open>i\<close>, and the
  outcome of the request for item \<open>i\<close>, given the title and the description sent.
\<close>

record summarizer =
  strptime :: "pystr \<Rightarrow> pystr \<Rightarrow> datetime option"
  now :: "nat \<Rightarrow> datetime"
  uuid4 :: "nat \<Rightarrow> pystr"
  post_summary :: "nat \<Rightarrow> pystr \<Rightarrow> pystr \<Rightarrow> summarizer_outcome"

text \<open>The fields that the status 200 branch and \<open>_create_fallback_result\<close> fill alike.\<close>

definition result_fields ::
  "summarizer \<Rightarrow> nat \<Rightarrow> news \<Rightarrow> pystr \<Rightarrow> summary_type option \<Rightarrow> summary_result" where
  "result_fields env i n summary_text stype =
     \<lparr>summary_id = uuid4 env i,
      corp = company n,
      summary = summary_text,
      original_title = title n,
      summary_confidence =
        (case classification n of None \<Rightarrow> Number 0 | Some c \<Rightarrow> confidence c),
      summary_keywords = dict_get (matched_keywords n) [],
      news_url = dict_get (link n) [],
      published_date =
        format_published_date (strptime env) (now env i) (dict_get (pubDate n) []),
      summary_category = dict_get (category n) general_category,
      sentiment = ascii ''neutral'',
      summary_type = stype\<rparr>"

definition create_fallback_result :: "summarizer \<Rightarrow> nat \<Rightarrow> news \<Rightarrow> summary_result" where
  "create_fallback_result env i n = result_fields env i n (generate_fallback_summary n) None"

text \<open>The body of the loop of \<open>summarize_news\<close> for item \<open>i\<close>: always one result.\<close>

definition summarize_item :: "summarizer \<Rightarrow> nat \<Rightarrow> news \<Rightarrow> summary_result" where
  "summarize_item env i n =
     (case post_summary env i (dict_get (title n) []) (dict_get (description n) []) of
        SummaryResponse status_code body \<Rightarrow>
          if status_code = 200
          then (case body of
                  BodyMalformed \<Rightarrow>
                    (create_fallback_result env i n)\<lparr>summary_type := Some fallback_unknown_error\<rparr>
                | Body SummaryTruthy \<Rightarrow>
                    (create_fallback_result env i n)\<lparr>summary_type := Some fallback_unknown_error\<rparr>
                | Body (SummaryText summary_text) \<Rightarrow>
                    if summary_text = [] \<or> strip summary_text = []
                    then result_fields env i n (generate_fallback_summary n)
                           (Some fallback_empty_response)
                    else result_fields env i n summary_text (Some ai_generated)
                | Body v \<Rightarrow>
                    result_fields env i n (generate_fallback_summary n)
                      (Some fallback_empty_response))
          else (create_fallback_result env i n)
                 \<lparr>summary_type := Some (fallback_api_error status_code)\<rparr>
      | SummaryRequestError \<Rightarrow>
          (create_fallback_result env i n)\<lparr>summary_type := Some fallback_network_error\<rparr>
      | SummaryOtherException \<Rightarrow>
          (create_fallback_result env i n)\<lparr>summary_type := Some fallback_unknown_error\<rparr>)"

fun summarize_from :: "summarizer \<Rightarrow> nat \<Rightarrow> news list \<Rightarrow> summary_result list" where
  "summarize_from env i [] = []"
| "summarize_from env i (n # news_list) =
     summarize_item env i n # summarize_from env (Suc i) news_list"

definition summarize_news :: "summarizer \<Rightarrow> news list \<Rightarrow> summary_result list" where
  "summarize_news env news_list = summarize_from env 0 news_list"

section \<open>Pipeline orchestrator\<close>

text \<open>
  The dict that \<open>process_news_pipeline\<close> returns. A key that a return statement does not
  write is \<open>None\<close>: \<open>after_deduplication\<close> and \<open>companies_processed\<close> are not in every
  returned dict. The messages are fixed Hangul sentences (and the text of the exception for
  the error result); they are named by what they say.
\<close>

datatype run_status = Success | Error

datatype run_message =
  no_news_collected
| none_passed_keyword_filter
| none_left_after_deduplication
| none_passed_classification
| pipeline_completed
| pipeline_failed py_exception

record pipeline_result =
  status :: run_status
  message :: run_message
  total_collected :: nat
  after_keyword_filter :: nat
  after_deduplication :: "nat option"
  after_classification :: nat
  final_summaries :: nat
  companies_processed :: "pystr list option"
  results :: "summary_result list"

text \<open>
  The collaborators that \<open>NewsPipelineService.__init__\<close> stores, as the orchestrator sees
  them: a call returns a value or raises. \<open>naver_service\<close> gives, for a company, what
  \<open>asyncio.gather(..., return_exceptions=True)\<close> holds for its task: the list fetched, or the
  exception of the task. \<open>token_set_ratio\<close> is the scorer used by \<open>remove_similar_titles\<close>.
\<close>

record services =
  naver_service :: "pystr \<Rightarrow> py_exception + news list"
  keyword_filter_service :: "news list \<Rightarrow> py_exception + news list"
  token_set_ratio :: "pystr \<Rightarrow> pystr \<Rightarrow> int"
  classifier_service :: "news list \<Rightarrow> py_exception + news list"
  summary_service :: "news list \<Rightarrow> py_exception + summary_result list"

text \<open>Stage 1: the loop over \<open>news_results\<close>; a task that failed contributes nothing.\<close>

fun extend_all_news :: "(py_exception + news list) list \<Rightarrow> news list \<Rightarrow> news list" where
  "extend_all_news [] all_news = all_news"
| "extend_all_news (Inr result # news_results) all_news =
     extend_all_news news_results (all_news @ result)"
| "extend_all_news (Inl e # news_results) all_news = extend_all_news news_results all_news"

definition collect_news :: "services \<Rightarrow> pystr list \<Rightarrow> news list" where
  "collect_news svc companies = extend_all_news (map (naver_service svc) companies) []"

text \<open>The body of the \<open>try\<close> block: it returns a result dict or raises.\<close>

definition pipeline_body :: "services \<Rightarrow> pystr list \<Rightarrow> py_exception + pipeline_result" where
  "pipeline_body svc companies =
     (let all_news = collect_news svc companies
      in if all_news = []
         then Inr \<lparr>status = Success, message = no_news_collected,
                   total_collected = 0, after_keyword_filter = 0, after_deduplication = None,
                   after_classification = 0, final_summaries = 0,
                   companies_processed = None, results = []\<rparr>
         else
           case keyword_filter_service svc all_news of
             Inl e \<Rightarrow> Inl e
           | Inr keyword_filtered_news \<Rightarrow>
               if keyword_filtered_news = []
               then Inr \<lparr>status = Success, message = none_passed_keyword_filter,
                         total_collected = length all_news, after_keyword_filter = 0,
                         after_deduplication = Some 0, after_classification = 0,
                         final_summaries = 0, companies_processed = None, results = []\<rparr>
               else
                 let deduped_news =
                       remove_similar_titles (token_set_ratio svc) keyword_filtered_news
                 in if deduped_news = []
                    then Inr \<lparr>status = Success, message = none_left_after_deduplication,
                              total_collected = length all_news,
                              after_keyword_filter = length keyword_filtered_news,
                              after_deduplication = Some 0, after_classification = 0,
                              final_summaries = 0, companies_processed = None, results = []\<rparr>
                    else
                      case classifier_service svc deduped_news of
                        Inl e \<Rightarrow> Inl e
                      | Inr classified_news \<Rightarrow>
                          if classified_news = []
                          then Inr \<lparr>status = Success, message = none_passed_classification,
                                    total_collected = length all_news,
                                    after_keyword_filter = length keyword_filtered_news,
                                    after_deduplication = Some (length deduped_news),
                                    after_classification = 0, final_summaries = 0,
                                    companies_processed = None, results = []\<rparr>
                          else
                            case summary_service svc classified_news of
                              Inl e \<Rightarrow> Inl e
                            | Inr final_results \<Rightarrow>
                                Inr \<lparr>status = Success, message = pipeline_completed,
                                     total_collected = length all_news,
                                     after_keyword_filter = length keyword_filtered_news,
                                     after_deduplication = Some (length deduped_news),
                                     after_classification = length classified_news,
                                     final_summaries = length final_results,
                                     companies_processed = Some companies,
                                     results = final_results\<rparr>)"

text \<open>\<open>process_news_pipeline\<close>: the \<open>try\<close> block and its \<open>except Exception\<close> handler.\<close>

definition process_news_pipeline :: "services \<Rightarrow> pystr list \<Rightarrow> pipeline_result" where
  "process_news_pipeline svc companies =
     (case pipeline_body svc companies of
        Inr pipeline_result \<Rightarrow> pipeline_result
      | Inl e \<Rightarrow>
          \<lparr>status = Error, message = pipeline_failed e,
           total_collected = 0, after_keyword_filter = 0, after_deduplication = Some 0,
           after_classification = 0, final_summaries = 0,
           companies_processed = None, results = []\<rparr>)"

text \<open>
  The services of the repository wired together, as the module-level singletons are: the
  keyword filter with its lexicon, the classifier and the summarizer with their remote
  services. These calls return; the remote services and the library functions are parameters.
\<close>

definition wired_services ::
  "(pystr \<Rightarrow> pystr) \<Rightarrow> (pystr \<Rightarrow> pystr \<Rightarrow> int) \<Rightarrow> (pystr \<Rightarrow> py_exception + news list)
    \<Rightarrow> (pystr list \<Rightarrow> classifier_outcome) \<Rightarrow> summarizer \<Rightarrow> services" where
  "wired_services lower ratio fetch post env =
     \<lparr>naver_service = fetch,
      keyword_filter_service = (\<lambda>news_list. Inr (filter_by_keywords lower important_keywords news_list)),
      token_set_ratio = ratio,
      classifier_service = (\<lambda>news_list. Inr (classify_news post news_list)),
      summary_service = (\<lambda>news_list. Inr (summarize_news env news_list))\<rparr>"

text \<open>A run of the wired services, for short.\<close>

definition wired_run ::
  "(pystr \<Rightarrow> pystr) \<Rightarrow> (pystr \<Rightarrow> pystr \<Rightarrow> int) \<Rightarrow> (pystr \<Rightarrow> py_exception + news list)
    \<Rightarrow> (pystr list \<Rightarrow> classifier_outcome) \<Rightarrow> summarizer \<Rightarrow> pystr list \<Rightarrow> pipeline_result" where
  "wired_run lower ratio fetch post env companies =
     process_news_pipeline (wired_services lower ratio fetch post env) companies"

section \<open>The stages on a store of dicts\<close>


















section \<open>Concrete inputs\<close>

text \<open>
  Library functions are parameters of the model. The examples instantiate them:
  \<open>ascii_lower\<close> is \<open>str.lower\<close> on ASCII text.
\<close>

definition ascii_lower :: "pystr \<Rightarrow> pystr" where
  "ascii_lower s = map (\<lambda>c. if 65 \<le> c \<and> c \<le> 90 then c + 32 else c) s"

definition sample_keywords :: "pystr list" where
  "sample_keywords = [ascii ''earnings'', ascii ''listing'', ascii ''launch'', ascii ''lawsuit'']"

definition listing_news :: news where
  "listing_news =
     \<lparr>company = Some (ascii ''Company''), title = Some (ascii ''Company announces new listing''),
      description = Some (ascii ''Shares start trading''), link = Some (ascii ''http://n/1''),
      pubDate = Some (ascii ''Mon, 18 Dec 2023 14:30:00 +0900''), category = None,
      matched_keywords = None, classification = None\<rparr>"

definition weather_news :: news where
  "weather_news =
     \<lparr>company = Some (ascii ''Company''), title = Some (ascii ''Sunny weather expected''),
      description = Some (ascii ''Forecast''), link = Some (ascii ''http://n/2''),
      pubDate = Some (ascii ''Mon, 18 Dec 2023 15:00:00 +0900''), category = None,
      matched_keywords = None, classification = None\<rparr>"

text \<open>
  \<open>exact_match_ratio\<close> stands in for the library's scorer in the examples: 100 for equal
  strings and 0 otherwise.
\<close>

definition exact_match_ratio :: "pystr \<Rightarrow> pystr \<Rightarrow> int" where
  "exact_match_ratio a b = (if a = b then 100 else 0)"

definition listing_copy :: news where
  \<comment> \<open>the same headline from another outlet, with white space around it\<close>
  "listing_copy =
     \<lparr>company = Some (ascii ''Company''), title = Some (ascii '' Company announces new listing ''),
      description = Some (ascii ''Trading begins''), link = Some (ascii ''http://m/7''),
      pubDate = Some (ascii ''Mon, 18 Dec 2023 14:45:00 +0900''), category = None,
      matched_keywords = None, classification = None\<rparr>"

definition untitled_news :: news where
  \<comment> \<open>an item whose title is white space only\<close>
  "untitled_news =
     \<lparr>company = Some (ascii ''Company''), title = Some (ascii ''  ''),
      description = Some (ascii ''Body''), link = Some (ascii ''http://n/3''),
      pubDate = Some [], category = None, matched_keywords = None, classification = None\<rparr>"

definition five_news :: "news list" where
  "five_news = [listing_news, listing_copy, weather_news, untitled_news, listing_news]"

definition classifier_http_500 :: "pystr list \<Rightarrow> classifier_outcome" where
  \<comment> \<open>a classifier that answers every request with status 500\<close>
  "classifier_http_500 titles = Response 500 Malformed"

definition classifier_null_answer :: "pystr list \<Rightarrow> classifier_outcome" where
  \<comment> \<open>a classifier whose second entry has the confidence \<open>null\<close>\<close>
  "classifier_null_answer titles =
     Response 200 (Results
       [Prediction (Some (ascii ''major'')) (Number (3 / 4)),
        Prediction (Some (ascii ''minor'')) Unusable])"

definition classifier_two_answers :: "pystr list \<Rightarrow> classifier_outcome" where
  \<comment> \<open>a classifier that answers with two entries, whatever the number of titles\<close>
  "classifier_two_answers titles =
     Response 200 (Results
       [Prediction (Some (ascii ''important'')) (Number (9 / 10)),
        Prediction (Some (ascii ''normal'')) (Number (3 / 10))])"

text \<open>
  A parser that stands in for \<open>datetime.strptime\<close> in the examples. For the format of the
  source it reads the fixed-width layout \<open>Www, DD Mmm YYYY HH:MM:SS\<close> with the English
  names as written here and checks the ranges of the fields, as the library does; the
  library reads these texts to the same dates, and it reads further layouts (one-digit
  fields, other letter case, more white space), which this parser rejects.
\<close>

definition month_names :: "pystr list" where
  "month_names = map ascii [''Jan'', ''Feb'', ''Mar'', ''Apr'', ''May'', ''Jun'', ''Jul'', ''Aug'',
     ''Sep'', ''Oct'', ''Nov'', ''Dec'']"

definition day_names :: "pystr list" where
  "day_names = map ascii [''Mon'', ''Tue'', ''Wed'', ''Thu'', ''Fri'', ''Sat'', ''Sun'']"

definition is_number :: "pystr \<Rightarrow> bool" where
  "is_number s \<longleftrightarrow> s \<noteq> [] \<and> list_all (\<lambda>c. 48 \<le> c \<and> c \<le> 57) s"

fun month_number :: "pystr \<Rightarrow> pystr list \<Rightarrow> nat" where
  "month_number m [] = 0"
| "month_number m (name # names) = (if m = name then 1 else Suc (month_number m names))"

definition strptime_fixed :: "pystr \<Rightarrow> pystr \<Rightarrow> datetime option" where
  "strptime_fixed s fmt =
     (let wd = take 3 s; dd = take 2 (drop 5 s); mon = take 3 (drop 8 s);
          yyyy = take 4 (drop 12 s); hh = take 2 (drop 17 s); mi = take 2 (drop 20 s);
          ss = take 2 (drop 23 s);
          y = decimal yyyy; m = month_number mon month_names; d = decimal dd
      in if fmt = ascii ''%a, %d %b %Y %H:%M:%S''
            \<and> length s = 25 \<and> wd \<in> set day_names \<and> take 2 (drop 3 s) = ascii '', ''
            \<and> take 1 (drop 7 s) = ascii '' '' \<and> mon \<in> set month_names
            \<and> take 1 (drop 11 s) = ascii '' '' \<and> take 1 (drop 16 s) = ascii '' ''
            \<and> take 1 (drop 19 s) = ascii '':'' \<and> take 1 (drop 22 s) = ascii '':''
            \<and> is_number dd \<and> is_number yyyy \<and> is_number hh \<and> is_number mi \<and> is_number ss
            \<and> 1 \<le> y \<and> 1 \<le> d \<and> d \<le> days_in_month y m
            \<and> decimal hh < 24 \<and> decimal mi < 60 \<and> decimal ss < 60
         then Some \<lparr>year = y, month = m, day = d, hour = decimal hh, minute = decimal mi,
                     second = decimal ss\<rparr>
         else None)"

definition today :: datetime where
  "today = \<lparr>year = 2026, month = 11, day = 4, hour = 9, minute = 0, second = 0\<rparr>"

definition launch_news :: news where
  "launch_news =
     \<lparr>company = Some (ascii ''X''), title = Some (ascii ''X launches product''),
      description = Some (ascii ''The product ships in May''), link = Some (ascii ''http://n/4''),
      pubDate = Some (ascii ''yesterday''), category = None,
      matched_keywords = Some [ascii ''launch''],
      classification = Some \<lparr>label = Some (ascii ''important''), confidence = Number (9 / 10)\<rparr>\<rparr>"

definition long_name_news :: news where
  \<comment> \<open>a company name of 101 characters, with a title and a description\<close>
  "long_name_news =
     \<lparr>company = Some (replicate 101 97), title = Some (ascii ''Listing''),
      description = Some (ascii ''Shares start trading''), link = Some [], pubDate = Some [],
      category = None, matched_keywords = None, classification = None\<rparr>"

definition long_title_news :: news where
  \<comment> \<open>a company name of 23 characters and a title of 70, without a description\<close>
  "long_title_news =
     \<lparr>company = Some (replicate 23 97), title = Some (replicate 70 98),
      description = Some [], link = Some [], pubDate = Some [],
      category = None, matched_keywords = None, classification = None\<rparr>"

text \<open>
  A run of the whole pipeline for the companies \<open>X\<close> and \<open>Y\<close>. The fetch for \<open>X\<close> gives four
  items and the task for \<open>Y\<close> fails; the summarizer cannot be reached.
\<close>

definition profit_news :: news where
  "profit_news =
     \<lparr>company = Some (ascii ''X''), title = Some (ascii ''Profit up 20%''),
      description = Some (ascii ''Quarterly results''), link = Some (ascii ''http://n/5''),
      pubDate = Some (ascii ''Mon, 18 Dec 2023 14:30:00 +0900''), category = None,
      matched_keywords = None, classification = None\<rparr>"

definition profit_copy :: news where
  "profit_copy =
     \<lparr>company = Some (ascii ''X''), title = Some (ascii '' Profit up 20% ''),
      description = Some (ascii ''Results are out''), link = Some (ascii ''http://m/5''),
      pubDate = Some (ascii ''Mon, 18 Dec 2023 14:40:00 +0900''), category = None,
      matched_keywords = None, classification = None\<rparr>"

definition deal_news :: news where
  "deal_news =
     \<lparr>company = Some (ascii ''X''), title = Some (ascii ''X signs ip deal''),
      description = Some (ascii ''A licence''), link = Some (ascii ''http://n/6''),
      pubDate = Some (ascii ''yesterday''), category = None,
      matched_keywords = None, classification = None\<rparr>"

definition sample_fetch :: "pystr \<Rightarrow> py_exception + news list" where
  "sample_fetch company_name =
     (if company_name = ascii ''X''
      then Inr [profit_news, profit_copy, weather_news, deal_news]
      else Inl OtherError)"

definition sample_uuid :: "nat \<Rightarrow> pystr" where
  "sample_uuid i = ascii ''id-'' @ digits 4 i"

definition unreachable_summarizer :: "nat \<Rightarrow> pystr \<Rightarrow> pystr \<Rightarrow> summarizer_outcome" where
  "unreachable_summarizer i ttl desc = SummaryRequestError"

definition clock_today :: "nat \<Rightarrow> datetime" where
  "clock_today i = today"

definition sample_summarizer :: summarizer where
  "sample_summarizer =
     \<lparr>strptime = strptime_fixed, now = clock_today,
      uuid4 = sample_uuid, post_summary = unreachable_summarizer\<rparr>"



section \<open>Properties of the keyword filter\<close>

lemma match_keywords_acc:
  "match_keywords lower ttl kws (h, m) =
     (h \<or> filter (\<lambda>k. sublist (lower k) ttl) kws \<noteq> [], m @ filter (\<lambda>k. sublist (lower k) ttl) kws)"
  by (induction kws arbitrary: h m) auto

lemma match_keywords_init:
  "match_keywords lower (lower (dict_get (title n) [])) kws (False, []) =
     (keyword_matches lower kws n \<noteq> [], keyword_matches lower kws n)"
  by (simp add: match_keywords_acc keyword_matches_def)

lemma filter_by_keywords_map_filter:
  "filter_by_keywords lower kws news_list =
     map (\<lambda>n. n\<lparr>matched_keywords := Some (keyword_matches lower kws n)\<rparr>)
       (filter (\<lambda>n. keyword_matches lower kws n \<noteq> []) news_list)"
  by (induction news_list) (simp_all add: match_keywords_init)

lemma keyword_matches_nonempty:
  "keyword_matches lower kws n \<noteq> [] \<longleftrightarrow>
     (\<exists>k \<in> set kws. sublist (lower k) (lower (dict_get (title n) [])))"
  by (auto simp: keyword_matches_def filter_empty_conv)

lemma length_filter_by_keywords:
  "length (filter_by_keywords lower kws news_list) \<le> length news_list"
  by (simp add: filter_by_keywords_map_filter)

text \<open>
  Claim C6. \<open>filter_by_keywords\<close> keeps exactly the items for which some lexicon entry,
  lower-cased, occurs as a substring of the lower-cased title, in input order, and each kept
  item carries the list of all matching lexicon entries, which is not empty; an item with no
  match is dropped.
\<close>

theorem filter_by_keywords_retains_matching:
  "filter_by_keywords lower keywords news_list =
     map (\<lambda>n. n\<lparr>matched_keywords := Some (keyword_matches lower keywords n)\<rparr>)
       (filter (\<lambda>n. \<exists>k \<in> set keywords. sublist (lower k) (lower (dict_get (title n) [])))
          news_list)
   \<and> (\<forall>r \<in> set (filter_by_keywords lower keywords news_list).
         \<exists>ks. matched_keywords r = Some ks \<and> ks \<noteq> [])"
proof
  show "filter_by_keywords lower keywords news_list =
     map (\<lambda>n. n\<lparr>matched_keywords := Some (keyword_matches lower keywords n)\<rparr>)
       (filter (\<lambda>n. \<exists>k \<in> set keywords. sublist (lower k) (lower (dict_get (title n) [])))
          news_list)"
    by (simp add: filter_by_keywords_map_filter keyword_matches_nonempty)
  show "\<forall>r \<in> set (filter_by_keywords lower keywords news_list).
          \<exists>ks. matched_keywords r = Some ks \<and> ks \<noteq> []"
    by (auto simp: filter_by_keywords_map_filter)
qed

text \<open>
  The example of the specification: with a lexicon that contains \<open>listing\<close>, the item titled
  \<open>Company announces new listing\<close> is kept with matched keywords \<open>[listing]\<close>, and an item
  whose title contains no lexicon entry is dropped.
\<close>

theorem filter_by_keywords_retains_matching_witness:
  "filter_by_keywords ascii_lower sample_keywords [listing_news, weather_news] =
     [listing_news\<lparr>matched_keywords := Some [ascii ''listing'']\<rparr>]
   \<and> map matched_keywords (filter_by_keywords ascii_lower sample_keywords [listing_news, weather_news])
       = [Some [ascii ''listing'']]"
proof -
  have e: "filter_by_keywords ascii_lower sample_keywords [listing_news, weather_news] =
     [listing_news\<lparr>matched_keywords := Some [ascii ''listing'']\<rparr>]"
    by (simp add: keyword_matches_def sample_keywords_def listing_news_def weather_news_def
        ascii_def ascii_lower_def dict_get_def sublist_code)
  from filter_by_keywords_retains_matching
    [of ascii_lower sample_keywords "[listing_news, weather_news]"]
  show ?thesis using e by simp
qed

section \<open>Properties of the deduplicator\<close>

lemma is_similar_iff:
  "is_similar ratio (compared_title n) kept \<longleftrightarrow> near_duplicate ratio n kept"
  by (induction kept) (auto simp: near_duplicate_def compared_title_def Let_def)

lemma scan_titles_Cons:
  "scan_titles ratio (c # rest) kept = scan_titles ratio rest (keep_step ratio kept c)"
  using is_similar_iff[of ratio c kept]
  by (simp add: keep_step_def blank_title_def compared_title_def Let_def)

lemma scan_titles_foldl: "scan_titles ratio xs kept = foldl (keep_step ratio) kept xs"
  by (induction xs arbitrary: kept) (simp_all only: scan_titles_Cons scan_titles.simps foldl.simps)

lemma remove_similar_titles_foldl:
  "remove_similar_titles ratio xs = foldl (keep_step ratio) [] xs"
  by (simp add: remove_similar_titles_def scan_titles_foldl)

lemma foldl_keep_step_subseq:
  "\<exists>ys. foldl (keep_step ratio) kept xs = kept @ ys \<and> subseq ys xs"
proof (induction xs arbitrary: kept)
  case Nil
  show ?case by simp
next
  case (Cons c xs)
  obtain ys where ys:
    "foldl (keep_step ratio) (keep_step ratio kept c) xs = keep_step ratio kept c @ ys"
    "subseq ys xs"
    using Cons.IH by blast
  show ?case
  proof (cases "blank_title c \<or> near_duplicate ratio c kept")
    case True
    then have "keep_step ratio kept c = kept" by (simp add: keep_step_def)
    with ys show ?thesis by (auto intro: subseq_Cons')
  next
    case False
    then have "keep_step ratio kept c = kept @ [c]" by (simp add: keep_step_def)
    with ys show ?thesis by auto
  qed
qed

lemma remove_similar_titles_subseq: "subseq (remove_similar_titles ratio xs) xs"
  using foldl_keep_step_subseq[of ratio "[]" xs] by (auto simp: remove_similar_titles_foldl)

lemma length_remove_similar_titles:
  "length (remove_similar_titles ratio xs) \<le> length xs"
  using remove_similar_titles_subseq[of ratio xs] by (rule list_emb_length)

lemma keep_step_nonblank:
  "\<forall>n \<in> set kept. \<not> blank_title n \<Longrightarrow> \<forall>n \<in> set (keep_step ratio kept c). \<not> blank_title n"
  by (auto simp: keep_step_def)

lemma foldl_keep_step_nonblank:
  "\<forall>n \<in> set kept. \<not> blank_title n \<Longrightarrow>
   \<forall>n \<in> set (foldl (keep_step ratio) kept xs). \<not> blank_title n"
proof (induction xs arbitrary: kept)
  case Nil
  then show ?case by simp
next
  case (Cons c xs)
  have "\<forall>n \<in> set (keep_step ratio kept c). \<not> blank_title n"
    using Cons.prems by (rule keep_step_nonblank)
  then have "\<forall>n \<in> set (foldl (keep_step ratio) (keep_step ratio kept c) xs). \<not> blank_title n"
    by (rule Cons.IH)
  then show ?case by simp
qed

lemma blank_samples:
  "blank_title untitled_news" "\<not> blank_title listing_news" "\<not> blank_title weather_news"
  "compared_title listing_copy = compared_title listing_news"
  "compared_title weather_news \<noteq> compared_title listing_news"
  by (simp_all add: blank_title_def compared_title_def untitled_news_def listing_news_def
      weather_news_def listing_copy_def dict_get_def strip_def is_space_def ascii_def)

text \<open>
  Claim C2, as the code has it. The deduplicator scans the input in order with the kept list
  built so far: the result for \<open>xs @ [c]\<close> is the result for \<open>xs\<close>, to which the candidate
  \<open>c\<close> is appended unless its title is blank or it scores 85 or more against the title of
  some kept item. The output is a subsequence of the input, the empty input gives the empty
  output, and three items \<open>a\<close>, \<open>b\<close>, \<open>c\<close> with non-blank titles for \<open>a\<close> and \<open>c\<close>, where \<open>b\<close>
  scores 85 or more against \<open>a\<close> and \<open>c\<close> scores less than 85 against \<open>a\<close>, give \<open>[a, c]\<close>.
\<close>

theorem remove_similar_titles_greedy:
  "remove_similar_titles ratio [] = []
   \<and> remove_similar_titles ratio (xs @ [cand]) =
       (if blank_title cand \<or> near_duplicate ratio cand (remove_similar_titles ratio xs)
        then remove_similar_titles ratio xs
        else remove_similar_titles ratio xs @ [cand])
   \<and> subseq (remove_similar_titles ratio news_list) news_list
   \<and> (\<not> blank_title a \<and> \<not> blank_title c
        \<and> 85 \<le> ratio (compared_title b) (compared_title a)
        \<and> ratio (compared_title c) (compared_title a) < 85
       \<longrightarrow> remove_similar_titles ratio [a, b, c] = [a, c])"
proof (intro conjI)
  show "remove_similar_titles ratio [] = []"
    by (simp add: remove_similar_titles_def)
  show "remove_similar_titles ratio (xs @ [cand]) =
       (if blank_title cand \<or> near_duplicate ratio cand (remove_similar_titles ratio xs)
        then remove_similar_titles ratio xs
        else remove_similar_titles ratio xs @ [cand])"
    by (simp add: remove_similar_titles_foldl keep_step_def)
  show "subseq (remove_similar_titles ratio news_list) news_list"
    by (rule remove_similar_titles_subseq)
  show "\<not> blank_title a \<and> \<not> blank_title c
        \<and> 85 \<le> ratio (compared_title b) (compared_title a)
        \<and> ratio (compared_title c) (compared_title a) < 85
       \<longrightarrow> remove_similar_titles ratio [a, b, c] = [a, c]"
    by (simp add: remove_similar_titles_foldl keep_step_def near_duplicate_def)
qed

theorem remove_similar_titles_greedy_witness:
  "\<not> blank_title listing_news \<and> \<not> blank_title weather_news
   \<and> 85 \<le> exact_match_ratio (compared_title listing_copy) (compared_title listing_news)
   \<and> exact_match_ratio (compared_title weather_news) (compared_title listing_news) < 85
   \<and> remove_similar_titles exact_match_ratio [listing_news, listing_copy, weather_news] =
       [listing_news, weather_news]"
  using remove_similar_titles_greedy
    [of exact_match_ratio "[]" listing_news "[]" listing_news weather_news listing_copy]
  by (simp add: blank_samples exact_match_ratio_def)

text \<open>
  The claim as worded (discarded if and only if some kept title scores 85 or more) fails on
  a candidate with a blank title: it is discarded although nothing has been kept yet.
\<close>

theorem remove_similar_titles_greedy_counterexample:
  "remove_similar_titles exact_match_ratio ([] @ [untitled_news]) = []
   \<and> \<not> near_duplicate exact_match_ratio untitled_news (remove_similar_titles exact_match_ratio [])"
  by (simp add: remove_similar_titles_foldl keep_step_def blank_samples near_duplicate_def)

text \<open>
  Claim C10. No item with a blank title (absent, empty or white space only) is in the output
  of \<open>remove_similar_titles\<close>, and such an item has no effect on the scan: removing it from
  the input leaves the result unchanged, so it never enters the kept list either.
\<close>

theorem remove_similar_titles_drops_blank:
  "(\<forall>n \<in> set (remove_similar_titles ratio news_list). \<not> blank_title n)
   \<and> (blank_title cand \<longrightarrow>
        remove_similar_titles ratio (xs @ cand # ys) = remove_similar_titles ratio (xs @ ys))"
proof
  have "\<forall>n \<in> set ([] :: news list). \<not> blank_title n" by simp
  then have "\<forall>n \<in> set (foldl (keep_step ratio) [] news_list). \<not> blank_title n"
    by (rule foldl_keep_step_nonblank)
  then show "\<forall>n \<in> set (remove_similar_titles ratio news_list). \<not> blank_title n"
    by (simp add: remove_similar_titles_foldl)
  show "blank_title cand \<longrightarrow>
        remove_similar_titles ratio (xs @ cand # ys) = remove_similar_titles ratio (xs @ ys)"
    by (simp add: remove_similar_titles_foldl keep_step_def)
qed

theorem remove_similar_titles_drops_blank_witness:
  "blank_title untitled_news
   \<and> remove_similar_titles exact_match_ratio [listing_news, untitled_news, weather_news] =
       [listing_news, weather_news]
   \<and> untitled_news \<notin> set (remove_similar_titles exact_match_ratio
         [listing_news, untitled_news, weather_news])"
proof -
  have r: "remove_similar_titles exact_match_ratio [listing_news, weather_news] =
      [listing_news, weather_news]"
    by (simp add: remove_similar_titles_foldl keep_step_def blank_samples near_duplicate_def
        exact_match_ratio_def)
  from remove_similar_titles_drops_blank
    [of exact_match_ratio "[listing_news, untitled_news, weather_news]" untitled_news
      "[listing_news]" "[weather_news]"]
  show ?thesis using r blank_samples(1) by auto
qed

section \<open>Properties of the classification adapter\<close>

lemma create_fallback_results_map:
  "create_fallback_results news_list et = map (\<lambda>n. n\<lparr>classification := Some fallback_classification\<rparr>) news_list"
  by (induction news_list) simp_all

lemma pass_all_on_failure_map:
  "pass_all_on_failure news_list = map (\<lambda>n. n\<lparr>classification := Some fallback_classification\<rparr>) news_list"
  by (induction news_list) (simp_all add: fallback_classification_def)

lemma float_0_6_pos: "\<not> float_0_6 \<le> 0"
  by (simp add: float_0_6_def)

lemma match_results_Nil2: "match_results news_list [] = Inr []"
  by (induction news_list) simp_all

lemma at_least_0_6_usable:
  "conf \<noteq> Unusable \<Longrightarrow>
   at_least_0_6 (case conf of Absent \<Rightarrow> Number 0 | v \<Rightarrow> v) = Inr (accepted (Prediction lbl conf))"
  by (cases conf) (simp_all add: float_0_6_pos)

lemma match_results_step:
  "match_results (n # news_list) (Prediction lbl conf # ps) =
     (if conf = Unusable then Inl TypeError
      else case match_results news_list ps of
             Inl e \<Rightarrow> Inl e
           | Inr out \<Rightarrow>
               if accepted (Prediction lbl conf)
               then Inr (n\<lparr>classification := Some \<lparr>label = lbl, confidence = conf\<rparr>\<rparr> # out)
               else Inr out)"
  by (cases "conf = Unusable") (simp_all add: at_least_0_6_usable[of conf lbl])

lemma match_results_usable:
  "\<forall>p \<in> set (take (length news_list) rs). usable p \<Longrightarrow>
   match_results news_list rs =
     Inr (map (\<lambda>(n, p). annotate n p) (filter (\<lambda>(n, p). accepted p) (zip news_list rs)))"
proof (induction news_list arbitrary: rs)
  case Nil
  show ?case by simp
next
  case (Cons n news_list)
  show ?case
  proof (cases rs)
    case Nil
    then show ?thesis by (simp add: match_results_Nil2)
  next
    case (Cons p ps)
    with Cons.prems have u: "usable p" and r: "\<forall>p \<in> set (take (length news_list) ps). usable p"
      by simp_all
    from u obtain lbl conf where p: "p = Prediction lbl conf" "conf \<noteq> Unusable"
      by (cases p) auto
    from p(2) show ?thesis
      using Cons.IH[OF r] by (simp add: Cons p(1) match_results_step del: match_results.simps)
  qed
qed

lemma match_results_raises:
  "\<not> (\<forall>p \<in> set (take (length news_list) rs). usable p) \<Longrightarrow>
   \<exists>e. match_results news_list rs = Inl e"
proof (induction news_list arbitrary: rs)
  case Nil
  then show ?case by simp
next
  case (Cons n news_list)
  show ?case
  proof (cases rs)
    case Nil
    with Cons.prems show ?thesis by simp
  next
    case rs: (Cons p ps)
    show ?thesis
    proof (cases "usable p")
      case False
      then show ?thesis
        unfolding rs by (cases p) (simp_all add: match_results_step del: match_results.simps(4))
    next
      case True
      with Cons.prems rs have "\<not> (\<forall>p \<in> set (take (length news_list) ps). usable p)"
        by simp
      then obtain e where e: "match_results news_list ps = Inl e"
        using Cons.IH by blast
      from True obtain lbl conf where "p = Prediction lbl conf" "conf \<noteq> Unusable"
        by (cases p) auto
      with e show ?thesis
        unfolding rs by (simp add: match_results_step del: match_results.simps)
    qed
  qed
qed

lemma length_match_results:
  "match_results news_list rs = Inr out \<Longrightarrow> length out \<le> min (length news_list) (length rs)"
proof (induction news_list arbitrary: rs out)
  case Nil
  then show ?case by simp
next
  case (Cons n news_list)
  show ?case
  proof (cases rs)
    case Nil
    with Cons.prems show ?thesis by (simp add: match_results_Nil2)
  next
    case rs: (Cons p ps)
    show ?thesis
    proof (cases p)
      case NotAnObject
      with Cons.prems rs show ?thesis by simp
    next
      case (Prediction lbl conf)
      show ?thesis
      proof (cases "match_results news_list ps")
        case (Inl e)
        with Cons.prems rs Prediction show ?thesis
          by (simp add: match_results_step del: match_results.simps split: if_splits)
      next
        case (Inr out')
        then have "length out' \<le> min (length news_list) (length ps)" by (rule Cons.IH)
        with Cons.prems rs Prediction Inr show ?thesis
          by (auto simp add: match_results_step simp del: match_results.simps split: if_splits)
      qed
    qed
  qed
qed

lemma length_classify_news: "length (classify_news post news_list) \<le> length news_list"
proof (cases "news_list = []")
  case True
  then show ?thesis by (simp add: classify_news_def)
next
  case False
  show ?thesis
  proof (cases "post (map (\<lambda>n. dict_get (title n) []) news_list)")
    case (Response status_code body)
    show ?thesis
    proof (cases "status_code = 200")
      case s: True
      show ?thesis
      proof (cases body)
        case Malformed
        with False Response s show ?thesis
          by (simp add: classify_news_def create_fallback_results_map)
      next
        case (Results rs)
        show ?thesis
        proof (cases "match_results news_list rs")
          case (Inl e)
          with False Response s Results show ?thesis
            by (simp add: classify_news_def create_fallback_results_map)
        next
          case (Inr out)
          from length_match_results[OF Inr] have "length out \<le> length news_list" by simp
          with False Response s Results Inr show ?thesis
            by (simp add: classify_news_def)
        qed
      qed
    next
      case s: False
      with False Response show ?thesis
        by (simp add: classify_news_def pass_all_on_failure_map)
    qed
  qed (simp_all add: classify_news_def create_fallback_results_map False)
qed

text \<open>
  Claim C3. \<open>classify_news\<close> is fail-open for the whole batch. Whenever the request does not
  end in a response with status 200 (any other status, a connection error, a timeout,
  another network error, any other exception), and also when processing a status 200
  response raises, the result is the input list, in order, each item annotated with the
  label \<open>important\<close> and the confidence 0.7; so it is as long as the input.
\<close>

theorem classify_news_fail_open:
  "((\<forall>body. post (map (\<lambda>n. dict_get (title n) []) news_list) \<noteq> Response 200 body)
    \<or> post (map (\<lambda>n. dict_get (title n) []) news_list) = Response 200 Malformed
    \<or> (\<exists>rs e. post (map (\<lambda>n. dict_get (title n) []) news_list) = Response 200 (Results rs)
          \<and> match_results news_list rs = Inl e))
   \<longrightarrow> classify_news post news_list =
         map (\<lambda>n. n\<lparr>classification :=
                Some \<lparr>label = Some (ascii ''important''), confidence = Number float_0_7\<rparr>\<rparr>) news_list
       \<and> length (classify_news post news_list) = length news_list"
proof
  let ?out = "post (map (\<lambda>n. dict_get (title n) []) news_list)"
  let ?fb = "map (\<lambda>n. n\<lparr>classification := Some fallback_classification\<rparr>) news_list"
  assume a: "(\<forall>body. ?out \<noteq> Response 200 body) \<or> ?out = Response 200 Malformed
    \<or> (\<exists>rs e. ?out = Response 200 (Results rs) \<and> match_results news_list rs = Inl e)"
  have "classify_news post news_list = ?fb"
  proof (cases "news_list = []")
    case True
    then show ?thesis by (simp add: classify_news_def)
  next
    case False
    from a consider
        (other) "\<forall>body. ?out \<noteq> Response 200 body"
      | (malformed) "?out = Response 200 Malformed"
      | (raised) rs e where "?out = Response 200 (Results rs)" "match_results news_list rs = Inl e"
      by blast
    then show ?thesis
    proof cases
      case other
      then show ?thesis
        using False
        by (cases ?out)
          (simp_all add: classify_news_def create_fallback_results_map pass_all_on_failure_map)
    next
      case malformed
      then show ?thesis
        using False by (simp add: classify_news_def create_fallback_results_map)
    next
      case raised
      then show ?thesis
        using False by (simp add: classify_news_def create_fallback_results_map)
    qed
  qed
  then show "classify_news post news_list =
         map (\<lambda>n. n\<lparr>classification :=
                Some \<lparr>label = Some (ascii ''important''), confidence = Number float_0_7\<rparr>\<rparr>) news_list
       \<and> length (classify_news post news_list) = length news_list"
    by (simp add: fallback_classification_def)
qed

text \<open>
  The example of the specification: the classifier answers status 500 for a batch of five
  items, and all five come back with the label \<open>important\<close> and the confidence 0.7.
\<close>

theorem classify_news_fail_open_witness:
  "classifier_http_500 (map (\<lambda>n. dict_get (title n) []) five_news) = Response 500 Malformed
   \<and> classify_news classifier_http_500 five_news =
       map (\<lambda>n. n\<lparr>classification :=
              Some \<lparr>label = Some (ascii ''important''), confidence = Number float_0_7\<rparr>\<rparr>) five_news
   \<and> length (classify_news classifier_http_500 five_news) = 5"
  using classify_news_fail_open [of classifier_http_500 five_news]
  by (simp add: classifier_http_500_def five_news_def)

text \<open>
  Claim C4, as the code has it. On a status 200 response with a result array, \<open>classify_news\<close>
  pairs entry \<open>i\<close> with item \<open>i\<close>, the pairing stopping at the shorter list. When every entry
  that the loop reads is an object whose confidence is absent or a number, it returns, in
  order, exactly the items whose entry has a confidence of at least 0.6, each annotated with
  the label and the confidence of its entry; items beyond the length of the response are
  dropped, with no annotation. When some entry that the loop reads is not such an object,
  the comparison or the log line raises and the whole batch is returned with the fallback
  annotation.
\<close>

theorem classify_news_positional:
  "post (map (\<lambda>n. dict_get (title n) []) news_list) = Response 200 (Results rs) \<longrightarrow>
     ((\<forall>p \<in> set (take (length news_list) rs). usable p) \<longrightarrow>
        classify_news post news_list =
          map (\<lambda>(n, p). annotate n p) (filter (\<lambda>(n, p). accepted p) (zip news_list rs))
        \<and> length (classify_news post news_list) \<le> length rs)
     \<and> (\<not> (\<forall>p \<in> set (take (length news_list) rs). usable p) \<longrightarrow>
        classify_news post news_list =
          map (\<lambda>n. n\<lparr>classification :=
                 Some \<lparr>label = Some (ascii ''important''), confidence = Number float_0_7\<rparr>\<rparr>) news_list)"
proof (intro impI conjI)
  assume a: "post (map (\<lambda>n. dict_get (title n) []) news_list) = Response 200 (Results rs)"
  {
    assume u: "\<forall>p \<in> set (take (length news_list) rs). usable p"
    then have m: "match_results news_list rs =
        Inr (map (\<lambda>(n, p). annotate n p) (filter (\<lambda>(n, p). accepted p) (zip news_list rs)))"
      by (rule match_results_usable)
    show e: "classify_news post news_list =
           map (\<lambda>(n, p). annotate n p) (filter (\<lambda>(n, p). accepted p) (zip news_list rs))"
    proof (cases "news_list = []")
      case True
      then show ?thesis by (simp add: classify_news_def)
    next
      case False
      with a m show ?thesis by (simp add: classify_news_def)
    qed
    have "length (filter (\<lambda>(n, p). accepted p) (zip news_list rs)) \<le> length (zip news_list rs)"
      by (rule length_filter_le)
    then show "length (classify_news post news_list) \<le> length rs"
      by (simp add: e)
  }
  {
    assume u: "\<not> (\<forall>p \<in> set (take (length news_list) rs). usable p)"
    then obtain e where m: "match_results news_list rs = Inl e"
      using match_results_raises by blast
    from u have "news_list \<noteq> []" by auto
    with a m have "classify_news post news_list =
        map (\<lambda>n. n\<lparr>classification := Some fallback_classification\<rparr>) news_list"
      by (simp add: classify_news_def create_fallback_results_map)
    then show "classify_news post news_list =
          map (\<lambda>n. n\<lparr>classification :=
                 Some \<lparr>label = Some (ascii ''important''), confidence = Number float_0_7\<rparr>\<rparr>) news_list"
      by (simp add: fallback_classification_def)
  }
qed

text \<open>
  Three items against a response of two entries (0.9 and 0.3): the first item is kept with
  its entry, the second is below the threshold, the third has no entry and is dropped.
\<close>

theorem classify_news_positional_witness:
  "classifier_two_answers (map (\<lambda>n. dict_get (title n) []) [listing_news, weather_news, listing_copy])
     = Response 200 (Results
         [Prediction (Some (ascii ''important'')) (Number (9 / 10)),
          Prediction (Some (ascii ''normal'')) (Number (3 / 10))])
   \<and> classify_news classifier_two_answers [listing_news, weather_news, listing_copy] =
       [listing_news\<lparr>classification :=
          Some \<lparr>label = Some (ascii ''important''), confidence = Number (9 / 10)\<rparr>\<rparr>]"
  using classify_news_positional [of classifier_two_answers
      "[listing_news, weather_news, listing_copy]"
      "[Prediction (Some (ascii ''important'')) (Number (9 / 10)),
        Prediction (Some (ascii ''normal'')) (Number (3 / 10))]"]
  by (simp add: classifier_two_answers_def float_0_6_def)

text \<open>
  The claim as worded fails on a status 200 response whose second entry has the confidence
  \<open>null\<close>: the first item, whose entry has the confidence 0.75, does not keep its label and
  confidence, and the second item is not dropped; both come back with the label \<open>important\<close>
  and the confidence 0.7.
\<close>

theorem classify_news_positional_counterexample:
  "classify_news classifier_null_answer [listing_news, weather_news] =
     [listing_news\<lparr>classification := Some fallback_classification\<rparr>,
      weather_news\<lparr>classification := Some fallback_classification\<rparr>]
   \<and> classify_news classifier_null_answer [listing_news, weather_news] \<noteq>
     [listing_news\<lparr>classification :=
        Some \<lparr>label = Some (ascii ''major''), confidence = Number (3 / 4)\<rparr>\<rparr>]"
  by (simp add: classify_news_def classifier_null_answer_def)

section \<open>Properties of the summarization adapter\<close>

lemma length_related_news: "length related_news = 8" by (simp add: related_news_def)

lemma length_news_announced: "length news_announced = 16" by (simp add: news_announced_def)

lemma prefix_take_100: "prefix c xs \<Longrightarrow> length c \<le> 100 \<Longrightarrow> prefix c (take 100 xs)"
  by (auto simp: prefix_def)

lemma nonempty_take_100: "xs \<noteq> [] \<Longrightarrow> take 100 xs \<noteq> []"
  by (cases xs) simp_all

lemma fallback_summary_both:
  assumes "dict_get (title n) [] \<noteq> []" "dict_get (description n) [] \<noteq> []"
  shows "\<exists>rest. rest \<noteq> [] \<and> generate_fallback_summary n = take 100 (dict_get (company n) [] @ rest)"
proof -
  define c where "c = dict_get (company n) []"
  define t where "t = dict_get (title n) []"
  define d where "d = dict_get (description n) []"
  define r where "r = 100 - int (length (c @ related_news @ take 30 t)) - 5"
  define cond where "cond \<longleftrightarrow> length (c @ related_news @ take 30 t) < 80 \<and> d \<noteq> [] \<and> r > 10"
  define more where "more = ascii '' - '' @ take (nat r) d @ ascii ''...''"
  define rest where "rest = (if cond then related_news @ take 30 t @ more else related_news @ take 30 t)"
  have nz: "related_news \<noteq> []" by (simp add: related_news_def)
  have g: "generate_fallback_summary n =
      take 100 (if cond then (c @ related_news @ take 30 t) @ more else c @ related_news @ take 30 t)"
    using assms
    unfolding generate_fallback_summary_def Let_def c_def t_def d_def r_def cond_def more_def
    by (simp only: simp_thms if_True)
  have "(if cond then (c @ related_news @ take 30 t) @ more else c @ related_news @ take 30 t) = c @ rest"
    unfolding rest_def by (simp only: append_assoc if_distrib[of "\<lambda>x. c @ x"])
  with g have e: "generate_fallback_summary n = take 100 (c @ rest)" by (simp only:)
  have "rest \<noteq> []" unfolding rest_def using nz by simp
  with e have "rest \<noteq> [] \<and> generate_fallback_summary n = take 100 (dict_get (company n) [] @ rest)"
    unfolding c_def by (simp only: simp_thms)
  then show ?thesis by (rule exI)
qed

lemma fallback_summary_title_only:
  assumes "dict_get (title n) [] \<noteq> []" "dict_get (description n) [] = []"
  shows "generate_fallback_summary n = dict_get (company n) [] @ related_news @ take 70 (dict_get (title n) [])"
  using assms by (simp add: generate_fallback_summary_def Let_def)

lemma fallback_summary_no_title:
  assumes "dict_get (title n) [] = []"
  shows "generate_fallback_summary n = dict_get (company n) [] @ news_announced"
  using assms by (simp add: generate_fallback_summary_def Let_def)

lemma fallback_summary_nonempty: "generate_fallback_summary n \<noteq> []"
proof (cases "dict_get (title n) [] = []")
  case True
  then show ?thesis by (simp add: fallback_summary_no_title news_announced_def)
next
  case t: False
  show ?thesis
  proof (cases "dict_get (description n) [] = []")
    case True
    with t show ?thesis by (simp add: fallback_summary_title_only related_news_def)
  next
    case False
    from fallback_summary_both[OF t False] obtain rest where
      "rest \<noteq> []" "generate_fallback_summary n = take 100 (dict_get (company n) [] @ rest)" by blast
    then show ?thesis by (simp add: nonempty_take_100)
  qed
qed

lemma fallback_summary_prefix:
  assumes "length (dict_get (company n) []) \<le> 100"
  shows "prefix (dict_get (company n) []) (generate_fallback_summary n)"
proof (cases "dict_get (title n) [] = []")
  case True
  then show ?thesis by (simp add: fallback_summary_no_title)
next
  case t: False
  show ?thesis
  proof (cases "dict_get (description n) [] = []")
    case True
    with t show ?thesis by (simp add: fallback_summary_title_only)
  next
    case False
    from fallback_summary_both[OF t False] obtain rest where
      "generate_fallback_summary n = take 100 (dict_get (company n) [] @ rest)" by blast
    with assms show ?thesis by (simp add: prefix_take_100)
  qed
qed

lemma fallback_summary_length_both:
  assumes "dict_get (title n) [] \<noteq> []" "dict_get (description n) [] \<noteq> []"
  shows "length (generate_fallback_summary n) \<le> 100"
proof -
  from fallback_summary_both[OF assms] obtain rest where
    "generate_fallback_summary n = take 100 (dict_get (company n) [] @ rest)" by blast
  then show ?thesis by simp
qed

text \<open>
  Where the truncation to 100 characters is at work (an item with a title and a
  description), a company name of 101 characters is cut: the summary is its first 100
  characters.
\<close>

lemma summary_long_name: "generate_fallback_summary long_name_news = replicate 100 97"
  by (simp add: generate_fallback_summary_def long_name_news_def dict_get_def ascii_def related_news_def Let_def)

lemma long_name_not_contained: "\<not> sublist (dict_get (company long_name_news) []) (replicate 100 97)"
proof
  assume "sublist (dict_get (company long_name_news) []) (replicate 100 97)"
  then have "length (dict_get (company long_name_news) []) \<le> length (replicate 100 (97::nat))"
    by (rule sublist_length_le)
  then show False by (simp add: long_name_news_def dict_get_def)
qed

text \<open>
  Claim C5 at the input where the code departs from it. For an item with a company name of
  23 characters, a title of 70 characters and no description, the summary is the company
  name, the 8 characters of \<open>related_news\<close> and the 70 characters of the title: it is not
  empty and begins with the company name, and it has 101 characters, where the claim, the
  docstring and the comment of this branch have at most 100 (the branch for an item with a
  title and a description truncates to 100; this one does not).
\<close>

theorem generate_fallback_summary_title_only:
  "generate_fallback_summary long_title_news =
     replicate 23 97 @ related_news @ replicate 70 98
   \<and> length (generate_fallback_summary long_title_news) = 101
   \<and> generate_fallback_summary long_title_news \<noteq> []
   \<and> prefix (dict_get (company long_title_news) []) (generate_fallback_summary long_title_news)"
proof -
  have t: "dict_get (title long_title_news) [] \<noteq> []"
    and d: "dict_get (description long_title_news) [] = []"
    and c: "dict_get (company long_title_news) [] = replicate 23 97"
    and tt: "take 70 (dict_get (title long_title_news) []) = replicate 70 98"
    by (simp_all add: long_title_news_def dict_get_def)
  have e: "generate_fallback_summary long_title_news =
      replicate 23 97 @ related_news @ replicate 70 98"
    using fallback_summary_title_only[OF t d] by (simp only: c tt)
  show ?thesis
    unfolding e c by (simp add: length_related_news)
qed

lemma strftime_Ymd:
  "strftime dt (ascii ''%Y%m%d'') = year_digits (year dt) @ digits 2 (month dt) @ digits 2 (day dt)"
  by (simp add: ascii_def)

lemma year_digits_four: "1000 \<le> y \<Longrightarrow> year_digits y = digits 4 y"
  by (simp add: year_digits_def)

lemma strftime_yyyymmdd: "1000 \<le> year dt \<Longrightarrow> strftime dt (ascii ''%Y%m%d'') = yyyymmdd dt"
  by (simp only: strftime_Ymd year_digits_four yyyymmdd_def)

lemma digits_unfold:
  "digits 4 n = [48 + (n div 1000) mod 10, 48 + (n div 100) mod 10, 48 + (n div 10) mod 10, 48 + n mod 10]"
  "digits 3 n = [48 + (n div 100) mod 10, 48 + (n div 10) mod 10, 48 + n mod 10]"
  "digits 2 n = [48 + (n div 10) mod 10, 48 + n mod 10]"
  by (simp_all add: digits_def upt_rec)

lemma mod_10_le_9: "(x::nat) mod 10 \<le> 9"
proof -
  have "x mod 10 < 10" by (rule mod_less_divisor) simp
  then show ?thesis by linarith
qed

lemma yyyymmdd_form:
  "length (yyyymmdd dt) = 8" "list_all (\<lambda>c. 48 \<le> c \<and> c \<le> 57) (yyyymmdd dt)"
  by (simp_all add: yyyymmdd_def digits_unfold mod_10_le_9)

lemma decimal_digits_2:
  assumes "m < 100"
  shows "decimal (digits 2 m) = m"
proof -
  from assms have "m div 10 < 10" by linarith
  then have s0: "m div 10 mod 10 = m div 10" by simp
  have s1: "m div 10 * 10 + m mod 10 = m" by (rule div_mult_mod_eq)
  have "decimal (digits 2 m) = m div 10 * 10 + m mod 10"
    by (simp add: decimal_def digits_unfold s0)
  with s1 show ?thesis by simp
qed

lemma decimal_digits_4:
  assumes "n < 10000"
  shows "decimal (digits 4 n) = n"
proof -
  from assms have "n div 1000 < 10" by linarith
  then have s0: "n div 1000 mod 10 = n div 1000" by simp
  have a: "n div 100 div 10 = n div 1000" "n div 10 div 10 = n div 100"
    by (simp_all add: div_mult2_eq[symmetric])
  have s1: "n div 1000 * 10 + n div 100 mod 10 = n div 100"
    using div_mult_mod_eq[of "n div 100" 10] a(1) by simp
  have s2: "n div 100 * 10 + n div 10 mod 10 = n div 10"
    using div_mult_mod_eq[of "n div 10" 10] a(2) by simp
  have s3: "n div 10 * 10 + n mod 10 = n" by (rule div_mult_mod_eq)
  have "decimal (digits 4 n) =
      ((n div 1000 * 10 + n div 100 mod 10) * 10 + n div 10 mod 10) * 10 + n mod 10"
    by (simp add: decimal_def digits_unfold s0 algebra_simps)
  then show ?thesis by (simp only: s1 s2 s3)
qed

lemma yyyymmdd_reads_back:
  assumes "valid_datetime dt"
  shows "decimal (take 4 (yyyymmdd dt)) = year dt"
    and "decimal (take 2 (drop 4 (yyyymmdd dt))) = month dt"
    and "decimal (drop 6 (yyyymmdd dt)) = day dt"
proof -
  from assms have y: "year dt < 10000" and m: "month dt < 100"
    and d: "day dt \<le> days_in_month (year dt) (month dt)"
    by (simp_all add: valid_datetime_def)
  have "days_in_month (year dt) (month dt) \<le> 31" by (simp add: days_in_month_def)
  with d have d': "day dt < 100" by simp
  have l: "length (digits 4 (year dt)) = 4" "length (digits 2 (month dt)) = 2"
    by (simp_all add: digits_unfold)
  show "decimal (take 4 (yyyymmdd dt)) = year dt"
    using decimal_digits_4[OF y] by (simp add: yyyymmdd_def l)
  show "decimal (take 2 (drop 4 (yyyymmdd dt))) = month dt"
    using decimal_digits_2[OF m] by (simp add: yyyymmdd_def l)
  show "decimal (drop 6 (yyyymmdd dt)) = day dt"
    using decimal_digits_2[OF d'] by (simp add: yyyymmdd_def l)
qed

lemma docstring_date_text:
  "strip (before_plus (ascii ''Mon, 18 Dec 2023 14:30:00 +0900'')) = ascii ''Mon, 18 Dec 2023 14:30:00''"
  by (simp add: strip_def before_plus_def ascii_def is_space_def)

lemma docstring_date_parsed:
  "strptime_fixed (ascii ''Mon, 18 Dec 2023 14:30:00'') (ascii ''%a, %d %b %Y %H:%M:%S'') =
     Some \<lparr>year = 2023, month = 12, day = 18, hour = 14, minute = 30, second = 0\<rparr>"
  by (simp add: strptime_fixed_def ascii_def day_names_def month_names_def is_number_def
      decimal_def days_in_month_def Let_def)

lemma old_date_text:
  "strip (before_plus (ascii ''Mon, 18 Dec 0999 14:30:00 +0900'')) = ascii ''Mon, 18 Dec 0999 14:30:00''"
  by (simp add: strip_def before_plus_def ascii_def is_space_def)

lemma old_date_parsed:
  "strptime_fixed (ascii ''Mon, 18 Dec 0999 14:30:00'') (ascii ''%a, %d %b %Y %H:%M:%S'') =
     Some \<lparr>year = 999, month = 12, day = 18, hour = 14, minute = 30, second = 0\<rparr>"
  by (simp add: strptime_fixed_def ascii_def day_names_def month_names_def is_number_def
      decimal_def days_in_month_def Let_def)

lemma yesterday_rejected:
  "strptime_fixed (strip (before_plus (ascii ''yesterday''))) (ascii ''%a, %d %b %Y %H:%M:%S'') = None"
  by (simp add: strptime_fixed_def strip_def before_plus_def ascii_def is_space_def Let_def)

lemma empty_rejected:
  "strptime_fixed (strip (before_plus [])) (ascii ''%a, %d %b %Y %H:%M:%S'') = None"
  by (simp add: strptime_fixed_def strip_def before_plus_def Let_def)

lemma sample_dates_rendered:
  "yyyymmdd \<lparr>year = 2023, month = 12, day = 18, hour = 14, minute = 30, second = 0\<rparr> = ascii ''20231218''"
  "yyyymmdd today = ascii ''20261104''"
  "strftime today (ascii ''%Y%m%d'') = ascii ''20261104''"
  "strftime \<lparr>year = 999, month = 12, day = 18, hour = 14, minute = 30, second = 0\<rparr> (ascii ''%Y%m%d'')
     = ascii ''9991218''"
  by (simp_all add: yyyymmdd_def today_def digits_unfold year_digits_def ascii_def)

text \<open>
  Claim C9, as the code has it (\<open>parse\<close> is the library's \<open>strptime\<close>, \<open>current\<close> the
  clock). For a non-empty input, \<open>_format_published_date\<close> parses the text before the first
  plus sign, stripped, with the format \<open>%a, %d %b %Y %H:%M:%S\<close>. When the parser accepts it
  and the year has four digits, the result is the date in the form \<open>YYYYMMDD\<close>: eight digits
  that read back as its year, month and day. When the parser rejects it, the result is the
  current date in that form. For the empty input the result is the empty string.
\<close>

theorem format_published_date_cases:
  "(pub_date \<noteq> [] \<and> parse (strip (before_plus pub_date)) (ascii ''%a, %d %b %Y %H:%M:%S'') = Some dt
      \<and> valid_datetime dt \<and> 1000 \<le> year dt \<longrightarrow>
      format_published_date parse current pub_date = yyyymmdd dt
      \<and> length (format_published_date parse current pub_date) = 8
      \<and> list_all (\<lambda>c. 48 \<le> c \<and> c \<le> 57) (format_published_date parse current pub_date)
      \<and> decimal (take 4 (format_published_date parse current pub_date)) = year dt
      \<and> decimal (take 2 (drop 4 (format_published_date parse current pub_date))) = month dt
      \<and> decimal (drop 6 (format_published_date parse current pub_date)) = day dt)
   \<and> (pub_date \<noteq> [] \<and> parse (strip (before_plus pub_date)) (ascii ''%a, %d %b %Y %H:%M:%S'') = None
      \<and> valid_datetime current \<and> 1000 \<le> year current \<longrightarrow>
      format_published_date parse current pub_date = yyyymmdd current)
   \<and> format_published_date parse current [] = []"
proof (intro conjI impI)
  show "format_published_date parse current [] = []"
    by (simp add: format_published_date_def)
  show "format_published_date parse current pub_date = yyyymmdd current"
    if "pub_date \<noteq> [] \<and> parse (strip (before_plus pub_date)) (ascii ''%a, %d %b %Y %H:%M:%S'') = None
      \<and> valid_datetime current \<and> 1000 \<le> year current"
    using that by (simp add: format_published_date_def strftime_yyyymmdd)
  assume a: "pub_date \<noteq> [] \<and> parse (strip (before_plus pub_date)) (ascii ''%a, %d %b %Y %H:%M:%S'') = Some dt
      \<and> valid_datetime dt \<and> 1000 \<le> year dt"
  then show e: "format_published_date parse current pub_date = yyyymmdd dt"
    by (simp add: format_published_date_def strftime_yyyymmdd)
  from a have v: "valid_datetime dt" by simp
  show "length (format_published_date parse current pub_date) = 8"
    unfolding e by (rule yyyymmdd_form)
  show "list_all (\<lambda>c. 48 \<le> c \<and> c \<le> 57) (format_published_date parse current pub_date)"
    unfolding e by (rule yyyymmdd_form)
  show "decimal (take 4 (format_published_date parse current pub_date)) = year dt"
    unfolding e using v by (rule yyyymmdd_reads_back)
  show "decimal (take 2 (drop 4 (format_published_date parse current pub_date))) = month dt"
    unfolding e using v by (rule yyyymmdd_reads_back)
  show "decimal (drop 6 (format_published_date parse current pub_date)) = day dt"
    unfolding e using v by (rule yyyymmdd_reads_back)
qed

text \<open>
  The example of the docstring, \<open>Mon, 18 Dec 2023 14:30:00 +0900\<close>, gives \<open>20231218\<close>; a
  text that is no date gives the current date, here 4 November 2026.
\<close>

theorem format_published_date_cases_witness:
  "strptime_fixed (strip (before_plus (ascii ''Mon, 18 Dec 2023 14:30:00 +0900'')))
       (ascii ''%a, %d %b %Y %H:%M:%S'') =
     Some \<lparr>year = 2023, month = 12, day = 18, hour = 14, minute = 30, second = 0\<rparr>
   \<and> format_published_date strptime_fixed today
       (ascii ''Mon, 18 Dec 2023 14:30:00 +0900'') = ascii ''20231218''
   \<and> strptime_fixed (strip (before_plus (ascii ''yesterday''))) (ascii ''%a, %d %b %Y %H:%M:%S'') = None
   \<and> format_published_date strptime_fixed today (ascii ''yesterday'') = ascii ''20261104''"
proof -
  let ?dt = "\<lparr>year = 2023, month = 12, day = 18, hour = 14, minute = 30, second = 0\<rparr>"
  have p: "strptime_fixed (strip (before_plus (ascii ''Mon, 18 Dec 2023 14:30:00 +0900'')))
       (ascii ''%a, %d %b %Y %H:%M:%S'') = Some ?dt"
    by (simp only: docstring_date_text docstring_date_parsed)
  have n: "ascii ''Mon, 18 Dec 2023 14:30:00 +0900'' \<noteq> []" "ascii ''yesterday'' \<noteq> []"
    by (simp_all add: ascii_def)
  have v: "valid_datetime ?dt" "1000 \<le> year ?dt" "valid_datetime today" "1000 \<le> year today"
    by (simp_all add: valid_datetime_def days_in_month_def today_def)
  from format_published_date_cases
         [of "ascii ''Mon, 18 Dec 2023 14:30:00 +0900''" strptime_fixed ?dt today]
  have a: "format_published_date strptime_fixed today
       (ascii ''Mon, 18 Dec 2023 14:30:00 +0900'') = yyyymmdd ?dt"
    using p n(1) v(1,2) by (simp only: simp_thms)
  from format_published_date_cases [of "ascii ''yesterday''" strptime_fixed ?dt today]
  have b: "format_published_date strptime_fixed today (ascii ''yesterday'') = yyyymmdd today"
    using yesterday_rejected n(2) v(3,4) by (simp only: simp_thms)
  show ?thesis
    using p a b yesterday_rejected by (simp only: sample_dates_rendered simp_thms)
qed

text \<open>
  The claim as worded fails on two inputs. The empty input, which the parser rejects, gives
  the empty string, not the current date. A date of the year 999, which the parser accepts,
  gives seven characters, the year without its leading zero.
\<close>

theorem format_published_date_cases_counterexample:
  "strptime_fixed (strip (before_plus [])) (ascii ''%a, %d %b %Y %H:%M:%S'') = None
   \<and> format_published_date strptime_fixed today [] = []
   \<and> strftime today (ascii ''%Y%m%d'') = ascii ''20261104''
   \<and> format_published_date strptime_fixed today [] \<noteq> strftime today (ascii ''%Y%m%d'')
   \<and> format_published_date strptime_fixed today (ascii ''Mon, 18 Dec 0999 14:30:00 +0900'')
       = ascii ''9991218''"
proof -
  have e: "format_published_date strptime_fixed today [] = []"
    by (simp add: format_published_date_def)
  have n: "ascii ''Mon, 18 Dec 0999 14:30:00 +0900'' \<noteq> []" "ascii ''20261104'' \<noteq> []"
    by (simp_all add: ascii_def)
  have o: "format_published_date strptime_fixed today (ascii ''Mon, 18 Dec 0999 14:30:00 +0900'')
       = ascii ''9991218''"
    using n(1) by (simp only: format_published_date_def old_date_text old_date_parsed
        sample_dates_rendered if_False option.case)
  show ?thesis
    using empty_rejected e o n(2) by (simp only: sample_dates_rendered simp_thms)
qed

section \<open>Properties of the orchestrator\<close>

lemma length_summarize_from: "length (summarize_from env i news_list) = length news_list"
  by (induction news_list arbitrary: i) simp_all

lemma length_summarize_news: "length (summarize_news env news_list) = length news_list"
  by (simp add: summarize_news_def length_summarize_from)

lemma extend_all_news_concat:
  "extend_all_news news_results all_news =
     all_news @ concat (map (\<lambda>r. case r of Inl e \<Rightarrow> [] | Inr result \<Rightarrow> result) news_results)"
proof (induction news_results arbitrary: all_news)
  case Nil
  show ?case by simp
next
  case (Cons r news_results)
  then show ?case by (cases r) simp_all
qed

lemma wired_fields:
  "naver_service (wired_services lower ratio fetch post env) = fetch"
  "keyword_filter_service (wired_services lower ratio fetch post env) news_list =
     Inr (filter_by_keywords lower important_keywords news_list)"
  "token_set_ratio (wired_services lower ratio fetch post env) = ratio"
  "classifier_service (wired_services lower ratio fetch post env) news_list =
     Inr (classify_news post news_list)"
  "summary_service (wired_services lower ratio fetch post env) news_list =
     Inr (summarize_news env news_list)"
  by (simp_all add: wired_services_def)

lemma wired_run_stages:
  fixes env :: summarizer
  assumes "all_news = collect_news (wired_services lower ratio fetch post env) companies"
    and "kf = filter_by_keywords lower important_keywords all_news"
    and "dd = remove_similar_titles ratio kf"
    and "cl = classify_news post dd"
    and "fs = summarize_news env cl"
  shows "wired_run lower ratio fetch post env companies =
     (if all_news = []
         then \<lparr>status = Success, message = no_news_collected,
                   total_collected = 0, after_keyword_filter = 0, after_deduplication = None,
                   after_classification = 0, final_summaries = 0,
                   companies_processed = None, results = []\<rparr>
      else if kf = []
               then \<lparr>status = Success, message = none_passed_keyword_filter,
                         total_collected = length all_news, after_keyword_filter = 0,
                         after_deduplication = Some 0, after_classification = 0,
                         final_summaries = 0, companies_processed = None, results = []\<rparr>
      else if dd = []
                    then \<lparr>status = Success, message = none_left_after_deduplication,
                              total_collected = length all_news,
                              after_keyword_filter = length kf,
                              after_deduplication = Some 0, after_classification = 0,
                              final_summaries = 0, companies_processed = None, results = []\<rparr>
      else if cl = []
                          then \<lparr>status = Success, message = none_passed_classification,
                                    total_collected = length all_news,
                                    after_keyword_filter = length kf,
                                    after_deduplication = Some (length dd),
                                    after_classification = 0, final_summaries = 0,
                                    companies_processed = None, results = []\<rparr>
      else \<lparr>status = Success, message = pipeline_completed,
                                     total_collected = length all_news,
                                     after_keyword_filter = length kf,
                                     after_deduplication = Some (length dd),
                                     after_classification = length cl,
                                     final_summaries = length fs,
                                     companies_processed = Some companies,
                                     results = fs\<rparr>)"
  unfolding wired_run_def process_news_pipeline_def pipeline_body_def assms(1)[symmetric] Let_def
  by (simp add: wired_fields assms(2-5))

lemma wired_run_counts:
  fixes env :: summarizer
  shows "final_summaries (wired_run lower ratio fetch post env companies)
           = after_classification (wired_run lower ratio fetch post env companies)"
    and "after_classification (wired_run lower ratio fetch post env companies)
           \<le> after_keyword_filter (wired_run lower ratio fetch post env companies)"
    and "after_keyword_filter (wired_run lower ratio fetch post env companies)
           \<le> total_collected (wired_run lower ratio fetch post env companies)"
    and "after_deduplication (wired_run lower ratio fetch post env companies) = Some d \<Longrightarrow>
           after_classification (wired_run lower ratio fetch post env companies) \<le> d
           \<and> d \<le> after_keyword_filter (wired_run lower ratio fetch post env companies)"
proof -
  define all_news where "all_news = collect_news (wired_services lower ratio fetch post env) companies"
  define kf where "kf = filter_by_keywords lower important_keywords all_news"
  define dd where "dd = remove_similar_titles ratio kf"
  define cl where "cl = classify_news post dd"
  define fs where "fs = summarize_news env cl"
  note r = wired_run_stages[OF all_news_def kf_def dd_def cl_def fs_def]
  have l1: "length kf \<le> length all_news"
    unfolding kf_def by (rule length_filter_by_keywords)
  have l2: "length dd \<le> length kf"
    unfolding dd_def by (rule length_remove_similar_titles)
  have l3: "length cl \<le> length dd"
    unfolding cl_def by (rule length_classify_news)
  have l4: "length fs = length cl"
    unfolding fs_def by (rule length_summarize_news)
  show "final_summaries (wired_run lower ratio fetch post env companies)
           = after_classification (wired_run lower ratio fetch post env companies)"
    unfolding r using l4 by simp
  show "after_classification (wired_run lower ratio fetch post env companies)
           \<le> after_keyword_filter (wired_run lower ratio fetch post env companies)"
    unfolding r using l2 l3 by simp
  show "after_keyword_filter (wired_run lower ratio fetch post env companies)
           \<le> total_collected (wired_run lower ratio fetch post env companies)"
    unfolding r using l1 by simp
  show "after_classification (wired_run lower ratio fetch post env companies) \<le> d
           \<and> d \<le> after_keyword_filter (wired_run lower ratio fetch post env companies)"
    if "after_deduplication (wired_run lower ratio fetch post env companies) = Some d"
    using that unfolding r using l2 l3 by (auto split: if_splits)
qed

lemma sample_matches:
  "keyword_matches ascii_lower important_keywords profit_news = [[37]]"
  "keyword_matches ascii_lower important_keywords profit_copy = [[37]]"
  "keyword_matches ascii_lower important_keywords weather_news = []"
  "keyword_matches ascii_lower important_keywords deal_news = [ascii ''ip'']"
  by (simp_all add: keyword_matches_def important_keywords_def profit_news_def profit_copy_def
      weather_news_def deal_news_def ascii_def ascii_lower_def dict_get_def sublist_code)

lemma sample_collected:
  "collect_news (wired_services ascii_lower exact_match_ratio sample_fetch classifier_two_answers
      sample_summarizer) [ascii ''X'', ascii ''Y''] =
   [profit_news, profit_copy, weather_news, deal_news]"
  by (simp add: collect_news_def wired_fields sample_fetch_def ascii_def)

lemma sample_filtered:
  "filter_by_keywords ascii_lower important_keywords
     [profit_news, profit_copy, weather_news, deal_news] =
   [profit_news\<lparr>matched_keywords := Some [[37]]\<rparr>, profit_copy\<lparr>matched_keywords := Some [[37]]\<rparr>,
    deal_news\<lparr>matched_keywords := Some [ascii ''ip'']\<rparr>]"
  by (simp add: filter_by_keywords_map_filter sample_matches)

lemma sample_titles:
  "compared_title (profit_news\<lparr>matched_keywords := k1\<rparr>) = ascii ''Profit up 20%''"
  "compared_title (profit_copy\<lparr>matched_keywords := k2\<rparr>) = ascii ''Profit up 20%''"
  "compared_title (deal_news\<lparr>matched_keywords := k3\<rparr>) = ascii ''X signs ip deal''"
  by (simp_all add: compared_title_def profit_news_def profit_copy_def deal_news_def
      dict_get_def strip_def is_space_def ascii_def)

lemma sample_deduped:
  "remove_similar_titles exact_match_ratio
     [profit_news\<lparr>matched_keywords := Some [[37]]\<rparr>, profit_copy\<lparr>matched_keywords := Some [[37]]\<rparr>,
      deal_news\<lparr>matched_keywords := Some [ascii ''ip'']\<rparr>] =
   [profit_news\<lparr>matched_keywords := Some [[37]]\<rparr>, deal_news\<lparr>matched_keywords := Some [ascii ''ip'']\<rparr>]"
  by (simp add: remove_similar_titles_foldl keep_step_def blank_title_def near_duplicate_def
      sample_titles exact_match_ratio_def ascii_def)

lemma sample_classified:
  "classify_news classifier_two_answers
     [profit_news\<lparr>matched_keywords := Some [[37]]\<rparr>, deal_news\<lparr>matched_keywords := Some [ascii ''ip'']\<rparr>] =
   [profit_news\<lparr>matched_keywords := Some [[37]],
      classification := Some \<lparr>label = Some (ascii ''important''), confidence = Number (9 / 10)\<rparr>\<rparr>]"
  by (simp add: classify_news_def classifier_two_answers_def float_0_6_def)

lemma sample_run:
  "wired_run ascii_lower exact_match_ratio sample_fetch classifier_two_answers sample_summarizer
     [ascii ''X'', ascii ''Y''] =
   \<lparr>status = Success, message = pipeline_completed, total_collected = 4,
    after_keyword_filter = 3, after_deduplication = Some 2, after_classification = 1,
    final_summaries = 1, companies_processed = Some [ascii ''X'', ascii ''Y''],
    results = summarize_news sample_summarizer
      [profit_news\<lparr>matched_keywords := Some [[37]],
         classification := Some \<lparr>label = Some (ascii ''important''), confidence = Number (9 / 10)\<rparr>\<rparr>]\<rparr>"
  using wired_run_stages[OF sample_collected[symmetric] sample_filtered[symmetric]
      sample_deduped[symmetric] sample_classified[symmetric] refl]
  by (simp add: length_summarize_news)

text \<open>
  Claim C1. In the result of every run of the pipeline the reported counts do not increase
  from stage to stage, and \<open>final_summaries\<close> equals \<open>after_classification\<close>, because
  \<open>summarize_news\<close> returns one result per item and \<open>filter_by_keywords\<close>,
  \<open>remove_similar_titles\<close> and \<open>classify_news\<close> return at most as many items as they get.
  (\<open>after_deduplication\<close> is compared where the result reports it.)
\<close>

theorem pipeline_counts_monotone:
  fixes env :: summarizer
  shows
  "final_summaries (process_news_pipeline (wired_services lower ratio fetch post env) companies)
     = after_classification (process_news_pipeline (wired_services lower ratio fetch post env) companies)
   \<and> after_classification (process_news_pipeline (wired_services lower ratio fetch post env) companies)
     \<le> after_keyword_filter (process_news_pipeline (wired_services lower ratio fetch post env) companies)
   \<and> after_keyword_filter (process_news_pipeline (wired_services lower ratio fetch post env) companies)
     \<le> total_collected (process_news_pipeline (wired_services lower ratio fetch post env) companies)
   \<and> (\<forall>d. after_deduplication (process_news_pipeline (wired_services lower ratio fetch post env) companies)
            = Some d \<longrightarrow>
          after_classification (process_news_pipeline (wired_services lower ratio fetch post env) companies) \<le> d
          \<and> d \<le> after_keyword_filter (process_news_pipeline (wired_services lower ratio fetch post env) companies))
   \<and> length (summarize_news env news_list) = length news_list
   \<and> length (filter_by_keywords lower keywords news_list) \<le> length news_list
   \<and> length (remove_similar_titles ratio news_list) \<le> length news_list
   \<and> length (classify_news post news_list) \<le> length news_list"
  using wired_run_counts [of lower ratio fetch post env companies]
  unfolding wired_run_def
  by (auto simp: length_summarize_news length_filter_by_keywords length_remove_similar_titles
      length_classify_news)

text \<open>
  A run for the companies \<open>X\<close> and \<open>Y\<close>: four items collected, three pass the keyword
  filter, two are left after deduplication, one passes the classifier, one summary.
\<close>

theorem pipeline_counts_monotone_witness:
  "total_collected (process_news_pipeline (wired_services ascii_lower exact_match_ratio sample_fetch
      classifier_two_answers sample_summarizer) [ascii ''X'', ascii ''Y'']) = 4
   \<and> after_keyword_filter (process_news_pipeline (wired_services ascii_lower exact_match_ratio
      sample_fetch classifier_two_answers sample_summarizer) [ascii ''X'', ascii ''Y'']) = 3
   \<and> after_deduplication (process_news_pipeline (wired_services ascii_lower exact_match_ratio
      sample_fetch classifier_two_answers sample_summarizer) [ascii ''X'', ascii ''Y'']) = Some 2
   \<and> after_classification (process_news_pipeline (wired_services ascii_lower exact_match_ratio
      sample_fetch classifier_two_answers sample_summarizer) [ascii ''X'', ascii ''Y'']) = 1
   \<and> final_summaries (process_news_pipeline (wired_services ascii_lower exact_match_ratio
      sample_fetch classifier_two_answers sample_summarizer) [ascii ''X'', ascii ''Y'']) = 1"
  using pipeline_counts_monotone [of ascii_lower exact_match_ratio sample_fetch
      classifier_two_answers sample_summarizer "[ascii ''X'', ascii ''Y'']" "[]" "[]"]
    sample_run
  unfolding wired_run_def by simp

text \<open>
  What \<open>process_news_pipeline\<close> returns for any collaborators, stage by stage: an exception
  raised in the \<open>try\<close> block gives the error result with all counts zero; an empty stage
  gives a success result with no results, the counts of the stages done and zero for the
  empty stage and the later ones.
\<close>

lemma process_news_pipeline_raised:
  "pipeline_body svc companies = Inl e \<Longrightarrow>
   process_news_pipeline svc companies =
     \<lparr>status = Error, message = pipeline_failed e,
      total_collected = 0, after_keyword_filter = 0, after_deduplication = Some 0,
      after_classification = 0, final_summaries = 0,
      companies_processed = None, results = []\<rparr>"
  by (simp add: process_news_pipeline_def)

lemma process_news_pipeline_nothing_filtered:
  "collect_news svc companies \<noteq> [] \<Longrightarrow>
   keyword_filter_service svc (collect_news svc companies) = Inr [] \<Longrightarrow>
   process_news_pipeline svc companies =
     \<lparr>status = Success, message = none_passed_keyword_filter,
      total_collected = length (collect_news svc companies), after_keyword_filter = 0,
      after_deduplication = Some 0, after_classification = 0, final_summaries = 0,
      companies_processed = None, results = []\<rparr>"
  by (simp add: process_news_pipeline_def pipeline_body_def)

lemma process_news_pipeline_nothing_deduplicated:
  "collect_news svc companies \<noteq> [] \<Longrightarrow>
   keyword_filter_service svc (collect_news svc companies) = Inr kf \<Longrightarrow> kf \<noteq> [] \<Longrightarrow>
   remove_similar_titles (token_set_ratio svc) kf = [] \<Longrightarrow>
   process_news_pipeline svc companies =
     \<lparr>status = Success, message = none_left_after_deduplication,
      total_collected = length (collect_news svc companies), after_keyword_filter = length kf,
      after_deduplication = Some 0, after_classification = 0, final_summaries = 0,
      companies_processed = None, results = []\<rparr>"
  by (simp add: process_news_pipeline_def pipeline_body_def)

lemma process_news_pipeline_nothing_classified:
  "collect_news svc companies \<noteq> [] \<Longrightarrow>
   keyword_filter_service svc (collect_news svc companies) = Inr kf \<Longrightarrow> kf \<noteq> [] \<Longrightarrow>
   remove_similar_titles (token_set_ratio svc) kf = dd \<Longrightarrow> dd \<noteq> [] \<Longrightarrow>
   classifier_service svc dd = Inr [] \<Longrightarrow>
   process_news_pipeline svc companies =
     \<lparr>status = Success, message = none_passed_classification,
      total_collected = length (collect_news svc companies), after_keyword_filter = length kf,
      after_deduplication = Some (length dd), after_classification = 0, final_summaries = 0,
      companies_processed = None, results = []\<rparr>"
  by (auto simp add: process_news_pipeline_def pipeline_body_def)

lemma process_news_pipeline_nothing_collected:
  "collect_news svc companies = [] \<Longrightarrow>
   process_news_pipeline svc companies =
     \<lparr>status = Success, message = no_news_collected,
      total_collected = 0, after_keyword_filter = 0, after_deduplication = None,
      after_classification = 0, final_summaries = 0,
      companies_processed = None, results = []\<rparr>"
  by (simp add: process_news_pipeline_def pipeline_body_def)

text \<open>
  Claim C7 at the input where the code departs from it. For the company \<open>Y\<close>, whose fetch
  fails, nothing is collected: the run returns a success result with no results, in which
  the count \<open>after_deduplication\<close> is not reported at all, where the claim has it zero like
  the other counts (the returns of the later empty stages and of the handler write it).
\<close>

theorem process_news_pipeline_empty_collection:
  "process_news_pipeline
     (wired_services ascii_lower exact_match_ratio sample_fetch classifier_two_answers
        sample_summarizer) [ascii ''Y''] =
     \<lparr>status = Success, message = no_news_collected,
      total_collected = 0, after_keyword_filter = 0, after_deduplication = None,
      after_classification = 0, final_summaries = 0,
      companies_processed = None, results = []\<rparr>
   \<and> after_deduplication (process_news_pipeline
        (wired_services ascii_lower exact_match_ratio sample_fetch classifier_two_answers
           sample_summarizer) [ascii ''Y'']) \<noteq> Some 0"
proof -
  have "collect_news (wired_services ascii_lower exact_match_ratio sample_fetch
      classifier_two_answers sample_summarizer) [ascii ''Y''] = []"
    by (simp add: collect_news_def wired_fields sample_fetch_def ascii_def)
  then show ?thesis
    by (simp add: process_news_pipeline_nothing_collected)
qed

section \<open>Properties of the stages on a store\<close>

































end
